theory Spec2Isabelle
  imports Complex_Main
begin

section \<open>Drone flight data generator: the trajectory and profile synthesis core\<close>

text \<open>
  A shallow embedding of \<^verbatim>\<open>drone_flight_generator.py\<close>: the geodetic offset
  converter, the four profiles, the four path generators and \<^verbatim>\<open>generate_entries\<close>.

  Python's \<^verbatim>\<open>float\<close> is idealised as \<^typ>\<open>real\<close> and \<^verbatim>\<open>int\<close> is
  \<^typ>\<open>int\<close>. Every exception the code can raise is a value: a function that can raise
  returns \<open>py_error + 'a\<close>, with \<open>Inl\<close> the exception. In the idealisation
  \<open>cos (radians 90) = 0\<close>, so the converter divides by zero at a polar reference latitude,
  as the design document says; with IEEE doubles that cosine is a tiny non-zero number.
\<close>

subsection \<open>Python primitives\<close>

datatype py_error = KeyError | ZeroDivisionError | IndexError

definition and_then :: "py_error + 'a \<Rightarrow> ('a \<Rightarrow> py_error + 'b) \<Rightarrow> py_error + 'b" where
  "and_then r f = (case r of Inl e \<Rightarrow> Inl e | Inr v \<Rightarrow> f v)"

text \<open>\<^verbatim>\<open>a / b\<close>: true division raises on a zero divisor, for floats and for ints.\<close>

definition py_div :: "real \<Rightarrow> real \<Rightarrow> py_error + real" where
  "py_div a b = (if b = 0 then Inl ZeroDivisionError else Inr (a / b))"

text \<open>\<^verbatim>\<open>a % m\<close> on floats takes the sign of the divisor. Every call site passes the
  literal \<open>360\<close>, so the zero-divisor branch does not exist in this program.\<close>

definition py_mod :: "real \<Rightarrow> real \<Rightarrow> real" where
  "py_mod a m = a - m * of_int \<lfloor>a / m\<rfloor>"

definition radians :: "real \<Rightarrow> real" where
  "radians x = x * pi / 180"

definition degrees :: "real \<Rightarrow> real" where
  "degrees x = x * 180 / pi"

text \<open>\<^verbatim>\<open>math.atan2(y, x)\<close>, the angle of the point \<open>(x, y)\<close> in \<open>(-\<pi>, \<pi>]\<close>.\<close>

definition atan2 :: "real \<Rightarrow> real \<Rightarrow> real" where
  "atan2 y x =
     (if 0 < x then arctan (y / x)
      else if x < 0 then (if 0 \<le> y then arctan (y / x) + pi else arctan (y / x) - pi)
      else if 0 < y then pi / 2
      else if y < 0 then - (pi / 2)
      else 0)"

text \<open>\<^verbatim>\<open>round(x, n)\<close> rounds to \<open>n\<close> decimals, ties to the even neighbour.\<close>

definition round_half_even :: "real \<Rightarrow> int" where
  "round_half_even x =
     (let f = \<lfloor>x\<rfloor>; d = x - of_int f
      in if d < 1 / 2 then f
         else if 1 / 2 < d then f + 1
         else if even f then f else f + 1)"

definition py_round :: "real \<Rightarrow> nat \<Rightarrow> real" where
  "py_round x n = of_int (round_half_even (x * 10 ^ n)) / 10 ^ n"

text \<open>\<^verbatim>\<open>int(t)\<close> truncates towards zero.\<close>

definition py_int :: "real \<Rightarrow> int" where
  "py_int t = (if 0 \<le> t then \<lfloor>t\<rfloor> else \<lceil>t\<rceil>)"

text \<open>\<^verbatim>\<open>range(n)\<close> is empty for \<open>n \<le> 0\<close>.\<close>

definition py_range :: "int \<Rightarrow> nat list" where
  "py_range n = [0 ..< nat n]"

text \<open>A \<^verbatim>\<open>for\<close> loop over a list that threads the loop's variables and stops at the
  first exception.\<close>

fun for_loop :: "'a list \<Rightarrow> ('a \<Rightarrow> 's \<Rightarrow> py_error + 's) \<Rightarrow> 's \<Rightarrow> py_error + 's" where
  "for_loop [] body s = Inr s"
| "for_loop (x # xs) body s =
     (case body x s of Inl e \<Rightarrow> Inl e | Inr s' \<Rightarrow> for_loop xs body s')"

subsection \<open>Maths helpers\<close>

definition M_PER_DEG_LAT :: real where
  "M_PER_DEG_LAT = 111320"

definition meters_to_latlon_offset :: "real \<Rightarrow> real \<Rightarrow> real \<Rightarrow> py_error + (real \<times> real)" where
  "meters_to_latlon_offset d_m angle_deg lat_c =
     (let m_per_deg_lon = M_PER_DEG_LAT * cos (radians lat_c);
          angle_rad = radians angle_deg;
          dlat = (d_m * cos angle_rad) / M_PER_DEG_LAT
      in and_then (py_div (d_m * sin angle_rad) m_per_deg_lon) (\<lambda>dlon. Inr (dlat, dlon)))"

subsection \<open>Profiles\<close>

text \<open>The fields \<^verbatim>\<open>sine_amp\<close> and \<^verbatim>\<open>sine_period\<close> exist in two classes and
  \<^verbatim>\<open>mode\<close>, \<^verbatim>\<open>period\<close> are too generic for global names: they carry a prefix
  here. Methods are named \<open>Class_method\<close>.\<close>

record SpeedProfile =
  base :: real
  speed_sine_amp :: real
  speed_sine_period :: real

definition SpeedProfile_speed :: "SpeedProfile \<Rightarrow> real \<Rightarrow> py_error + real" where
  "SpeedProfile_speed p t =
     and_then (py_div (2 * pi * t) (speed_sine_period p))
       (\<lambda>q. Inr (base p + speed_sine_amp p * sin q))"

record AltitudeProfile =
  takeoff_elevation :: real
  takeoff_altitude :: real
  climb_rate :: real
  alt_sine_amp :: real
  alt_sine_period :: real

text \<open>The division by \<^verbatim>\<open>climb_rate\<close> is guarded by \<^verbatim>\<open>climb_rate > 0\<close> in the source.\<close>

definition AltitudeProfile_height :: "AltitudeProfile \<Rightarrow> real \<Rightarrow> py_error + real" where
  "AltitudeProfile_height p t =
     (if t \<le> 0 then Inr (takeoff_elevation p)
      else
        let altitude_diff = takeoff_altitude p - takeoff_elevation p;
            climb_time = (if 0 < climb_rate p then altitude_diff / climb_rate p else 0);
            h = (if t \<le> climb_time then takeoff_elevation p + climb_rate p * t
                 else takeoff_altitude p)
        in if alt_sine_amp p \<noteq> 0
           then and_then (py_div (2 * pi * t) (alt_sine_period p))
                  (\<lambda>q. Inr (h + alt_sine_amp p * sin q))
           else Inr h)"

record GimbalProfile =
  yaw_mode :: string
  yaw_static :: real
  yaw_amp :: real
  yaw_period :: real
  yaw_rotation_rate :: real
  pitch_mode :: string
  pitch_static :: real
  pitch_mid :: real
  pitch_amp :: real
  pitch_period :: real
  roll_amp :: real
  roll_period :: real

definition GimbalProfile_yaw :: "GimbalProfile \<Rightarrow> real \<Rightarrow> real \<Rightarrow> py_error + real" where
  "GimbalProfile_yaw g heading t =
     (if yaw_mode g = ''static'' then Inr (py_mod (heading + yaw_static g) 360)
      else if yaw_mode g = ''oscillating''
        then and_then (py_div (2 * pi * t) (yaw_period g))
               (\<lambda>q. Inr (py_mod (heading + yaw_amp g * sin q) 360))
      else if yaw_mode g = ''rotating''
        then Inr (py_mod (heading + yaw_rotation_rate g * t) 360)
      else Inr (py_mod heading 360))"

definition GimbalProfile_pitch :: "GimbalProfile \<Rightarrow> real \<Rightarrow> py_error + real" where
  "GimbalProfile_pitch g t =
     (if pitch_mode g = ''static'' then Inr (pitch_static g)
      else if pitch_mode g = ''oscillating''
        then and_then (py_div (2 * pi * t) (pitch_period g))
               (\<lambda>q. Inr (pitch_mid g + (pitch_amp g / 2) * sin q))
      else Inr (pitch_static g))"

definition GimbalProfile_roll :: "GimbalProfile \<Rightarrow> real \<Rightarrow> py_error + real" where
  "GimbalProfile_roll g t =
     and_then (py_div (2 * pi * t) (roll_period g)) (\<lambda>q. Inr (roll_amp g * sin q))"

record ZoomProfile =
  zoom_mode :: string
  static_value :: real
  min_value :: real
  max_value :: real
  zoom_period :: real

definition ZoomProfile_zoom_factor :: "ZoomProfile \<Rightarrow> real \<Rightarrow> py_error + real" where
  "ZoomProfile_zoom_factor z t =
     (if zoom_mode z = ''static'' then Inr (static_value z)
      else if zoom_mode z = ''oscillating''
        then (let range_val = max_value z - min_value z
              in and_then (py_div (2 * pi * t) (zoom_period z))
                   (\<lambda>q. Inr (min_value z + (range_val / 2) * (1 + sin q))))
      else Inr (static_value z))"

subsection \<open>Flight configuration\<close>

record FlightConfig =
  path_type :: string
  duration :: int
  hz :: int
  center_lat :: real
  center_lon :: real
  radius_m :: real
  tri_edge_m :: real
  start_lat :: real
  start_lon :: real
  bearing_deg :: real
  altitude :: AltitudeProfile
  speed :: SpeedProfile
  gimbal :: GimbalProfile
  zoom :: ZoomProfile

definition total_pts :: "FlightConfig \<Rightarrow> int" where
  "total_pts cfg = duration cfg * hz cfg"

subsection \<open>Path generators\<close>

type_synonym waypoint = "real \<times> real \<times> real"

definition circle_body :: "FlightConfig \<Rightarrow> nat \<Rightarrow> waypoint list \<Rightarrow> py_error + waypoint list" where
  "circle_body cfg i out =
     and_then (py_div (real i) (of_int (total_pts cfg))) (\<lambda>frac.
       let ang = frac * 360
       in and_then (meters_to_latlon_offset (radius_m cfg) ang (center_lat cfg)) (\<lambda>(dlat, dlon).
            let lat = center_lat cfg + dlat;
                lon = center_lon cfg + dlon;
                heading = py_mod (ang + 90) 360
            in Inr (out @ [(lat, lon, heading)])))"

definition gen_circle :: "FlightConfig \<Rightarrow> py_error + waypoint list" where
  "gen_circle cfg = for_loop (py_range (total_pts cfg)) (circle_body cfg) []"

definition straight_body ::
  "FlightConfig \<Rightarrow> real \<Rightarrow> nat \<Rightarrow> waypoint list \<Rightarrow> py_error + waypoint list" where
  "straight_body cfg step i out =
     (let d = step * real i
      in and_then (meters_to_latlon_offset d (bearing_deg cfg) (start_lat cfg)) (\<lambda>(dlat, dlon).
           Inr (out @ [(start_lat cfg + dlat, start_lon cfg + dlon, py_mod (bearing_deg cfg) 360)])))"

definition gen_straight :: "FlightConfig \<Rightarrow> py_error + waypoint list" where
  "gen_straight cfg =
     (let total_dist = base (speed cfg) * of_int (duration cfg)
      in and_then (py_div total_dist (of_int (total_pts cfg))) (\<lambda>step.
           for_loop (py_range (total_pts cfg)) (straight_body cfg step) []))"

text \<open>\<^verbatim>\<open>[x] * n\<close> is the empty list for \<open>n \<le> 0\<close>.\<close>

definition gen_hover :: "FlightConfig \<Rightarrow> py_error + waypoint list" where
  "gen_hover cfg =
     Inr (replicate (nat (total_pts cfg))
            (start_lat cfg, start_lon cfg, py_mod (bearing_deg cfg) 360))"

definition verts_body ::
  "FlightConfig \<Rightarrow> nat \<Rightarrow> (real \<times> real) list \<Rightarrow> py_error + (real \<times> real) list" where
  "verts_body cfg k verts =
     (let ang = 90 + real k * 120
      in and_then (meters_to_latlon_offset (tri_edge_m cfg / sqrt 3) ang (center_lat cfg))
           (\<lambda>(dlat, dlon). Inr (verts @ [(center_lat cfg + dlat, center_lon cfg + dlon)])))"

definition point_body ::
  "int \<Rightarrow> real \<times> real \<Rightarrow> real \<times> real \<Rightarrow> nat \<Rightarrow> waypoint list \<Rightarrow> py_error + waypoint list" where
  "point_body pts_per_edge v1 v2 j out =
     (case (v1, v2) of ((lat1, lon1), (lat2, lon2)) \<Rightarrow>
        and_then (py_div (real j) (of_int pts_per_edge)) (\<lambda>t.
          let lat = lat1 + t * (lat2 - lat1);
              lon = lon1 + t * (lon2 - lon1);
              heading = py_mod (degrees (atan2 (lon2 - lon1) (lat2 - lat1))) 360
          in Inr (out @ [(lat, lon, heading)])))"

definition edge_body ::
  "int \<Rightarrow> (real \<times> real) list \<Rightarrow> nat \<Rightarrow> waypoint list \<Rightarrow> py_error + waypoint list" where
  "edge_body pts_per_edge verts e out =
     for_loop (py_range pts_per_edge)
       (point_body pts_per_edge (verts ! e) (verts ! ((e + 1) mod 3))) out"

text \<open>\<^verbatim>\<open>while len(out) < cfg.total_pts(): out.append(out[-1])\<close>; \<^verbatim>\<open>out[-1]\<close> raises
  on an empty list.\<close>

function pad_tail :: "int \<Rightarrow> waypoint list \<Rightarrow> py_error + waypoint list" where
  "pad_tail n out =
     (if int (length out) < n
      then (if out = [] then Inl IndexError else pad_tail n (out @ [last out]))
      else Inr out)"
  by pat_completeness auto
termination
  by (relation "measure (\<lambda>(n, out). nat (n - int (length out)))") auto

declare pad_tail.simps [simp del]

text \<open>\<^verbatim>\<open>cfg.total_pts() // 3 or 1\<close>: floor division, and \<open>1\<close> when the quotient is
  zero. The three vertices are \<^verbatim>\<open>verts[0..2]\<close>; the edge loop reads indices below 3.\<close>

definition gen_triangle :: "FlightConfig \<Rightarrow> py_error + waypoint list" where
  "gen_triangle cfg =
     and_then (for_loop (py_range 3) (verts_body cfg) []) (\<lambda>verts.
       let q = total_pts cfg div 3;
           pts_per_edge = (if q = 0 then 1 else q)
       in and_then (for_loop (py_range 3) (edge_body pts_per_edge verts) []) (\<lambda>out.
            pad_tail (total_pts cfg) out))"

definition PATHS :: "string \<rightharpoonup> (FlightConfig \<Rightarrow> py_error + waypoint list)" where
  "PATHS = [''circle'' \<mapsto> gen_circle, ''straight'' \<mapsto> gen_straight,
            ''triangle'' \<mapsto> gen_triangle, ''hover'' \<mapsto> gen_hover]"

subsection \<open>Entry generation\<close>

text \<open>One record of the output, the dictionary under the key \<^verbatim>\<open>"data"\<close>. A datetime is
  a number of seconds on the clock; \<^verbatim>\<open>timedelta(seconds=t)\<close> keeps microseconds, ties to
  even; \<^verbatim>\<open>isoformat\<close> is the identity on this representation.\<close>

record Telemetry =
  latitude :: real
  longitude :: real
  height :: real
  elevation :: int
  attitude_head :: real
  attitude_roll :: real
  attitude_pitch :: real
  gimbal_pitch :: real
  gimbal_roll :: real
  gimbal_yaw :: real
  zoom_factor :: real
  speed_field :: real
  seconds_elapsed :: int
  current_datetime :: real
  flight_distance :: real

record Entry =
  data :: Telemetry

text \<open>The body of the loop of \<^verbatim>\<open>generate_entries\<close>: the loop's variables are
  \<^verbatim>\<open>entries\<close> and \<^verbatim>\<open>flight_dist\<close>.\<close>

definition entry_body ::
  "real \<Rightarrow> FlightConfig \<Rightarrow> nat \<times> waypoint \<Rightarrow> Entry list \<times> real \<Rightarrow> py_error + (Entry list \<times> real)" where
  "entry_body start_time cfg iw st =
     (case (iw, st) of ((i, (lat, lon, heading)), (entries, flight_dist0)) \<Rightarrow>
        and_then (py_div (real i) (of_int (hz cfg))) (\<lambda>t.
        and_then (SpeedProfile_speed (speed cfg) t) (\<lambda>spd.
        and_then (py_div spd (of_int (hz cfg))) (\<lambda>inc.
        let flight_dist = flight_dist0 + inc in
        and_then (AltitudeProfile_height (altitude cfg) t) (\<lambda>h.
        and_then (GimbalProfile_roll (gimbal cfg) t) (\<lambda>a_roll.
        and_then (GimbalProfile_pitch (gimbal cfg) t) (\<lambda>g_pitch.
        and_then (GimbalProfile_roll (gimbal cfg) t) (\<lambda>g_roll.
        and_then (GimbalProfile_yaw (gimbal cfg) heading t) (\<lambda>g_yaw.
        and_then (ZoomProfile_zoom_factor (zoom cfg) t) (\<lambda>zf.
          Inr (entries @
                 [\<lparr>data = \<lparr>latitude = py_round lat 6,
                            longitude = py_round lon 6,
                            height = py_round h 1,
                            elevation = 0,
                            attitude_head = py_round heading 1,
                            attitude_roll = py_round a_roll 2,
                            attitude_pitch = 0,
                            gimbal_pitch = py_round g_pitch 1,
                            gimbal_roll = py_round g_roll 2,
                            gimbal_yaw = py_round g_yaw 1,
                            zoom_factor = py_round zf 2,
                            speed_field = py_round spd 2,
                            seconds_elapsed = py_int t,
                            current_datetime = start_time + py_round t 6,
                            flight_distance = py_round flight_dist 1\<rparr>\<rparr>],
               flight_dist)))))))))))"

text \<open>\<^verbatim>\<open>datetime.datetime.now()\<close> is read once, after the path has been generated; its
  value is the parameter \<open>start_time\<close>.\<close>

definition generate_entries :: "real \<Rightarrow> FlightConfig \<Rightarrow> py_error + Entry list" where
  "generate_entries start_time cfg =
     (case PATHS (path_type cfg) of
        None \<Rightarrow> Inl KeyError
      | Some gen \<Rightarrow>
          and_then (gen cfg) (\<lambda>path_pts.
            and_then (for_loop (enumerate 0 path_pts) (entry_body start_time cfg) ([], 0))
              (\<lambda>(entries, flight_dist). Inr entries)))"

subsection \<open>The dataclass defaults\<close>

definition SpeedProfile_default :: SpeedProfile where
  "SpeedProfile_default = \<lparr>base = 5, speed_sine_amp = 0, speed_sine_period = 30\<rparr>"

definition AltitudeProfile_default :: AltitudeProfile where
  "AltitudeProfile_default =
     \<lparr>takeoff_elevation = 0, takeoff_altitude = 500, climb_rate = 2,
      alt_sine_amp = 0, alt_sine_period = 60\<rparr>"

definition GimbalProfile_default :: GimbalProfile where
  "GimbalProfile_default =
     \<lparr>yaw_mode = ''static'', yaw_static = 0, yaw_amp = 90, yaw_period = 60,
      yaw_rotation_rate = 1,
      pitch_mode = ''static'', pitch_static = - 30, pitch_mid = - 30, pitch_amp = 60,
      pitch_period = 60,
      roll_amp = 5, roll_period = 40\<rparr>"

definition ZoomProfile_default :: ZoomProfile where
  "ZoomProfile_default =
     \<lparr>zoom_mode = ''static'', static_value = 1, min_value = 1, max_value = 3,
      zoom_period = 60\<rparr>"

definition FlightConfig_default :: FlightConfig where
  "FlightConfig_default =
     \<lparr>path_type = ''circle'', duration = 120, hz = 1,
      center_lat = 45.53946, center_lon = - 122.76394,
      radius_m = 60, tri_edge_m = 120,
      start_lat = 45.53946, start_lon = - 122.76394, bearing_deg = 90,
      altitude = AltitudeProfile_default, speed = SpeedProfile_default,
      gimbal = GimbalProfile_default, zoom = ZoomProfile_default\<rparr>"

subsection \<open>Notions used in the statements\<close>

text \<open>The unrounded speed at sample \<open>i\<close>, at time \<open>t = i / hz\<close>, when the speed profile
  has a value there.\<close>

definition sample_speed :: "FlightConfig \<Rightarrow> nat \<Rightarrow> real" where
  "sample_speed cfg i =
     (case SpeedProfile_speed (speed cfg) (real i / of_int (hz cfg)) of
        Inr v \<Rightarrow> v | Inl e \<Rightarrow> 0)"

text \<open>A record with its timestamp blanked.\<close>

definition without_datetime :: "Entry \<Rightarrow> Entry" where
  "without_datetime e = e\<lparr>data := (data e)\<lparr>current_datetime := 0\<rparr>\<rparr>"

text \<open>No period that a profile evaluator can divide by is zero: the speed and roll periods,
  the altitude ripple period when the ripple amplitude is not zero, and the yaw, pitch and
  zoom periods in oscillating mode. This is enough for every evaluator to return at every
  time.\<close>

definition periods_nonzero :: "FlightConfig \<Rightarrow> bool" where
  "periods_nonzero cfg \<longleftrightarrow>
     speed_sine_period (speed cfg) \<noteq> 0 \<and>
     roll_period (gimbal cfg) \<noteq> 0 \<and>
     (alt_sine_amp (altitude cfg) = 0 \<or> alt_sine_period (altitude cfg) \<noteq> 0) \<and>
     (yaw_mode (gimbal cfg) \<noteq> ''oscillating'' \<or> yaw_period (gimbal cfg) \<noteq> 0) \<and>
     (pitch_mode (gimbal cfg) \<noteq> ''oscillating'' \<or> pitch_period (gimbal cfg) \<noteq> 0) \<and>
     (zoom_mode (zoom cfg) \<noteq> ''oscillating'' \<or> zoom_period (zoom cfg) \<noteq> 0)"

text \<open>No division of a profile evaluator is by zero during a run of \<open>total_pts\<close>
  samples at a positive rate. The altitude evaluator returns before its division when
  \<open>t \<le> 0\<close>, so its ripple period matters only from the second sample on.\<close>

definition no_zero_divisor :: "FlightConfig \<Rightarrow> bool" where
  "no_zero_divisor cfg \<longleftrightarrow>
     speed_sine_period (speed cfg) \<noteq> 0 \<and>
     roll_period (gimbal cfg) \<noteq> 0 \<and>
     (alt_sine_amp (altitude cfg) = 0 \<or> alt_sine_period (altitude cfg) \<noteq> 0 \<or>
      total_pts cfg \<le> 1) \<and>
     (yaw_mode (gimbal cfg) \<noteq> ''oscillating'' \<or> yaw_period (gimbal cfg) \<noteq> 0) \<and>
     (pitch_mode (gimbal cfg) \<noteq> ''oscillating'' \<or> pitch_period (gimbal cfg) \<noteq> 0) \<and>
     (zoom_mode (zoom cfg) \<noteq> ''oscillating'' \<or> zoom_period (zoom cfg) \<noteq> 0)"

text \<open>The \<^verbatim>\<open>flight_distance\<close> fields of a sequence of records, in order.\<close>

definition flight_distances :: "Entry list \<Rightarrow> real list" where
  "flight_distances es = map (\<lambda>e. flight_distance (data e)) es"

section \<open>Basic facts\<close>

lemma and_then_Inl [simp]: "and_then (Inl e) f = Inl e"
  by (simp add: and_then_def)
lemma and_then_Inr [simp]: "and_then (Inr v) f = f v"
  by (simp add: and_then_def)
lemma py_div_zero [simp]: "py_div a 0 = Inl ZeroDivisionError"
  by (simp add: py_div_def)
lemma py_div_nonzero: "b \<noteq> 0 \<Longrightarrow> py_div a b = Inr (a / b)"
  by (simp add: py_div_def)

lemma py_mod_id: "0 \<le> a \<Longrightarrow> a < 360 \<Longrightarrow> py_mod a 360 = a"
proof -
  assume a: "0 \<le> a" "a < 360"
  have "\<lfloor>a / 360\<rfloor> = 0" using a by (simp add: floor_eq_iff)
  then show ?thesis by (simp add: py_mod_def)
qed

lemma py_mod_range: "0 \<le> py_mod a 360 \<and> py_mod a 360 < 360"
proof -
  have "of_int \<lfloor>a / 360\<rfloor> \<le> a / 360" "a / 360 < of_int \<lfloor>a / 360\<rfloor> + 1"
    by linarith+
  then show ?thesis unfolding py_mod_def by (simp add: field_simps)
qed

lemma PATHS_hover: "PATHS ''hover'' = Some gen_hover"
  by (simp add: PATHS_def)
lemma PATHS_circle: "PATHS ''circle'' = Some gen_circle"
  by (simp add: PATHS_def)
lemma PATHS_straight: "PATHS ''straight'' = Some gen_straight"
  by (simp add: PATHS_def)
lemma PATHS_triangle: "PATHS ''triangle'' = Some gen_triangle"
  by (simp add: PATHS_def)

lemma for_loop_append:
  assumes "\<And>x out. x \<in> set xs \<Longrightarrow> body x out = Inr (out @ [g x])"
  shows "for_loop xs body out = Inr (out @ map g xs)"
  using assms by (induction xs arbitrary: out) simp_all

lemma cos_radians_pos:
  assumes "- 90 < x" and "x < 90"
  shows "0 < cos (radians x)"
proof -
  have a: "- 90 * pi < x * pi"
    by (rule mult_strict_right_mono [OF assms(1) pi_gt_zero])
  have b: "x * pi < 90 * pi"
    by (rule mult_strict_right_mono [OF assms(2) pi_gt_zero])
  have "- (pi / 2) < radians x"
    using a by (simp add: radians_def)
  moreover have "radians x < pi / 2"
    using b by (simp add: radians_def)
  ultimately show ?thesis by (rule cos_gt_zero_pi)
qed

lemma meters_to_latlon_offset_Inr:
  assumes "cos (radians lat_c) \<noteq> 0"
  shows "meters_to_latlon_offset d_m angle_deg lat_c =
           Inr (d_m * cos (radians angle_deg) / 111320,
                d_m * sin (radians angle_deg) / (111320 * cos (radians lat_c)))"
  using assms by (simp add: meters_to_latlon_offset_def M_PER_DEG_LAT_def Let_def py_div_nonzero)

lemma meters_to_latlon_offset_polar:
  assumes "cos (radians lat_c) = 0"
  shows "meters_to_latlon_offset d_m angle_deg lat_c = Inl ZeroDivisionError"
  using assms by (simp add: meters_to_latlon_offset_def M_PER_DEG_LAT_def Let_def)

lemma set_py_range: "i \<in> set (py_range n) \<longleftrightarrow> i < nat n"
  by (simp add: py_range_def)

lemma length_py_range: "length (py_range n) = nat n"
  by (simp add: py_range_def)

lemma nth_py_range: "i < nat n \<Longrightarrow> py_range n ! i = i"
  by (simp add: py_range_def)

lemma for_loop_snoc:
  "for_loop (xs @ [x]) body s = and_then (for_loop xs body s) (body x)"
  by (induction xs arbitrary: s) (simp_all split: sum.splits)

lemma and_then_eq_Inr:
  "and_then r f = Inr y \<longleftrightarrow> (\<exists>v. r = Inr v \<and> f v = Inr y)"
  by (cases r) simp_all

lemma py_div_eq_Inr: "py_div a b = Inr q \<longleftrightarrow> b \<noteq> 0 \<and> q = a / b"
  by (auto simp add: py_div_def)

lemma for_loop_rel:
  assumes "R s t" and "\<And>x s t. R s t \<Longrightarrow> rel_sum (=) R (b1 x s) (b2 x t)"
  shows "rel_sum (=) R (for_loop xs b1 s) (for_loop xs b2 t)"
  using assms(1)
proof (induction xs arbitrary: s t)
  case Nil
  then show ?case by simp
next
  case (Cons x xs)
  have r: "rel_sum (=) R (b1 x s) (b2 x t)"
    by (rule assms(2) [OF Cons.prems])
  show ?case
  proof (cases "b1 x s")
    case (Inl e)
    with r have "b2 x t = Inl e" by (cases "b2 x t") simp_all
    with Inl show ?thesis by simp
  next
    case (Inr s')
    with r obtain t' where t': "b2 x t = Inr t'" "R s' t'"
      by (cases "b2 x t") simp_all
    with Inr Cons.IH [OF t'(2)] show ?thesis by simp
  qed
qed

lemma round_half_even_mono:
  assumes "x \<le> y"
  shows "round_half_even x \<le> round_half_even y"
proof -
  have fl: "\<lfloor>x\<rfloor> \<le> \<lfloor>y\<rfloor>" using assms by (rule floor_mono)
  have lo: "\<And>z. \<lfloor>z\<rfloor> \<le> round_half_even z"
    by (simp add: round_half_even_def Let_def)
  have hi: "\<And>z. round_half_even z \<le> \<lfloor>z\<rfloor> + 1"
    by (simp add: round_half_even_def Let_def)
  show ?thesis
  proof (cases "\<lfloor>x\<rfloor> = \<lfloor>y\<rfloor>")
    case True
    then have "x - of_int \<lfloor>x\<rfloor> \<le> y - of_int \<lfloor>y\<rfloor>"
      using assms by simp
    then show ?thesis using True
      by (auto simp add: round_half_even_def Let_def)
  next
    case False
    with fl have "\<lfloor>x\<rfloor> + 1 \<le> \<lfloor>y\<rfloor>" by simp
    then show ?thesis using lo [of y] hi [of x] by linarith
  qed
qed

lemma py_round_mono:
  assumes "x \<le> y"
  shows "py_round x n \<le> py_round y n"
proof -
  have "x * 10 ^ n \<le> y * 10 ^ n"
    using assms by (simp add: mult_right_mono)
  then have "round_half_even (x * 10 ^ n) \<le> round_half_even (y * 10 ^ n)"
    by (rule round_half_even_mono)
  then show ?thesis
    by (simp add: py_round_def divide_right_mono)
qed

lemma py_round_zero: "py_round 0 n = 0"
  by (simp add: py_round_def round_half_even_def)

section \<open>Profile evaluators\<close>

subsection \<open>Altitude\<close>

text \<open>
  Claim C3. For an altitude profile without ripple (\<open>alt_sine_amp = 0\<close>) and
  \<open>climb_time = (target - start) / climb_rate\<close> when \<open>climb_rate > 0\<close>, else \<open>0\<close>,
  the cases of \<open>height t\<close> in the order of the code: the start elevation for
  \<open>t \<le> 0\<close>; \<open>start + climb_rate * t\<close> for \<open>0 < t \<le> climb_time\<close>; the target for
  the remaining times, those with \<open>t > climb_time\<close> (and \<open>t > 0\<close>, the first case being
  excluded). For \<open>start = 0\<close>, \<open>target = 500\<close>, \<open>climb_rate = 2\<close>: \<open>height 0 = 0\<close>,
  \<open>height 250 = 500\<close> and \<open>height t = 500\<close> for every \<open>t > 250\<close>.
\<close>

theorem height_without_ripple:
  assumes "alt_sine_amp p = 0"
  shows "(t \<le> 0 \<longrightarrow> AltitudeProfile_height p t = Inr (takeoff_elevation p)) \<and>
         (0 < t \<and> t \<le> (if 0 < climb_rate p
                          then (takeoff_altitude p - takeoff_elevation p) / climb_rate p else 0) \<longrightarrow>
            AltitudeProfile_height p t = Inr (takeoff_elevation p + climb_rate p * t)) \<and>
         (0 < t \<and> (if 0 < climb_rate p
                    then (takeoff_altitude p - takeoff_elevation p) / climb_rate p else 0) < t \<longrightarrow>
            AltitudeProfile_height p t = Inr (takeoff_altitude p)) \<and>
         (takeoff_elevation p = 0 \<and> takeoff_altitude p = 500 \<and> climb_rate p = 2 \<longrightarrow>
            AltitudeProfile_height p 0 = Inr 0 \<and>
            AltitudeProfile_height p 250 = Inr 500 \<and>
            (250 < t \<longrightarrow> AltitudeProfile_height p t = Inr 500))"
  using assms by (auto simp add: AltitudeProfile_height_def Let_def)

theorem height_without_ripple_witness:
  "alt_sine_amp AltitudeProfile_default = 0 \<and>
   AltitudeProfile_height AltitudeProfile_default (- 1) = Inr 0 \<and>
   AltitudeProfile_height AltitudeProfile_default 100 = Inr 200 \<and>
   AltitudeProfile_height AltitudeProfile_default 250 = Inr 500 \<and>
   AltitudeProfile_height AltitudeProfile_default 300 = Inr 500"
  using height_without_ripple [of AltitudeProfile_default "- 1"]
    height_without_ripple [of AltitudeProfile_default 100]
    height_without_ripple [of AltitudeProfile_default 300]
  by (simp add: AltitudeProfile_default_def)

subsection \<open>Zoom\<close>

text \<open>
  Claim C4, as the code has it. For a zoom profile in oscillating mode whose period is not
  zero, \<open>zoom t = min + ((max - min) / 2) * (1 + sin (2 * pi * t / period))\<close> for every
  \<open>t\<close>; for \<open>min = 1\<close> and \<open>max = 3\<close> the value stays in \<open>[1, 3]\<close>; and
  \<open>zoom 0 = (min + max) / 2\<close>.
\<close>

theorem zoom_oscillating:
  assumes "zoom_mode z = ''oscillating''" and "zoom_period z \<noteq> 0"
  shows "ZoomProfile_zoom_factor z t =
           Inr (min_value z + ((max_value z - min_value z) / 2) * (1 + sin (2 * pi * t / zoom_period z))) \<and>
         (min_value z = 1 \<and> max_value z = 3 \<longrightarrow>
            (\<exists>v. ZoomProfile_zoom_factor z t = Inr v \<and> 1 \<le> v \<and> v \<le> 3)) \<and>
         ZoomProfile_zoom_factor z 0 = Inr ((min_value z + max_value z) / 2)"
proof -
  have eq: "\<And>t. ZoomProfile_zoom_factor z t =
           Inr (min_value z + ((max_value z - min_value z) / 2) * (1 + sin (2 * pi * t / zoom_period z)))"
    using assms by (simp add: ZoomProfile_zoom_factor_def Let_def py_div_nonzero)
  have b: "- 1 \<le> sin (2 * pi * t / zoom_period z)" "sin (2 * pi * t / zoom_period z) \<le> 1"
    by simp_all
  have "min_value z = 1 \<and> max_value z = 3 \<longrightarrow>
            (\<exists>v. ZoomProfile_zoom_factor z t = Inr v \<and> 1 \<le> v \<and> v \<le> 3)"
  proof
    assume "min_value z = 1 \<and> max_value z = 3"
    then have "ZoomProfile_zoom_factor z t = Inr (1 + (1 + sin (2 * pi * t / zoom_period z)))"
      by (simp add: eq)
    moreover have "1 \<le> 1 + (1 + sin (2 * pi * t / zoom_period z))"
      using b by linarith
    moreover have "1 + (1 + sin (2 * pi * t / zoom_period z)) \<le> 3"
      using b by linarith
    ultimately show "\<exists>v. ZoomProfile_zoom_factor z t = Inr v \<and> 1 \<le> v \<and> v \<le> 3"
      by blast
  qed
  moreover have "ZoomProfile_zoom_factor z 0 = Inr ((min_value z + max_value z) / 2)"
    by (simp add: eq field_simps)
  ultimately show ?thesis using eq by blast
qed

theorem zoom_oscillating_witness:
  "zoom_mode (ZoomProfile_default\<lparr>zoom_mode := ''oscillating''\<rparr>) = ''oscillating'' \<and>
   zoom_period (ZoomProfile_default\<lparr>zoom_mode := ''oscillating''\<rparr>) \<noteq> 0 \<and>
   min_value (ZoomProfile_default\<lparr>zoom_mode := ''oscillating''\<rparr>) = 1 \<and>
   max_value (ZoomProfile_default\<lparr>zoom_mode := ''oscillating''\<rparr>) = 3 \<and>
   ZoomProfile_zoom_factor (ZoomProfile_default\<lparr>zoom_mode := ''oscillating''\<rparr>) 0 = Inr 2 \<and>
   ZoomProfile_zoom_factor (ZoomProfile_default\<lparr>zoom_mode := ''oscillating''\<rparr>) 15 = Inr 3"
  using zoom_oscillating [of "ZoomProfile_default\<lparr>zoom_mode := ''oscillating''\<rparr>" 15]
  by (simp add: ZoomProfile_default_def)

text \<open>
  C4 says \<open>every\<close> oscillating zoom profile. With period \<open>0\<close> the evaluator has no
  value: the division \<^verbatim>\<open>2*math.pi*t/self.period\<close> raises.
\<close>

theorem zoom_zero_period_counterexample:
  "zoom_mode (ZoomProfile_default\<lparr>zoom_mode := ''oscillating'', zoom_period := 0\<rparr>) = ''oscillating'' \<and>
   ZoomProfile_zoom_factor (ZoomProfile_default\<lparr>zoom_mode := ''oscillating'', zoom_period := 0\<rparr>) 1
     = Inl ZeroDivisionError"
  by (simp add: ZoomProfile_zoom_factor_def ZoomProfile_default_def)

subsection \<open>Unknown modes\<close>

text \<open>
  Claim C8. With a mode string outside the recognised set no evaluator raises: the yaw of an
  unknown \<open>yaw_mode\<close> is \<open>heading mod 360\<close>, the pitch of an unknown \<open>pitch_mode\<close> is
  the static pitch, and the zoom factor of an unknown zoom mode is the static zoom value, for
  every heading and time.
\<close>

theorem unknown_modes_fall_back:
  "(yaw_mode g \<notin> {''static'', ''oscillating'', ''rotating''} \<longrightarrow>
      GimbalProfile_yaw g heading t = Inr (py_mod heading 360)) \<and>
   (pitch_mode g \<notin> {''static'', ''oscillating''} \<longrightarrow>
      GimbalProfile_pitch g t = Inr (pitch_static g)) \<and>
   (zoom_mode z \<notin> {''static'', ''oscillating''} \<longrightarrow>
      ZoomProfile_zoom_factor z t = Inr (static_value z))"
  by (simp add: GimbalProfile_yaw_def GimbalProfile_pitch_def ZoomProfile_zoom_factor_def)

theorem unknown_modes_fall_back_witness:
  "yaw_mode (GimbalProfile_default\<lparr>yaw_mode := ''spin'', pitch_mode := ''rotating''\<rparr>)
     \<notin> {''static'', ''oscillating'', ''rotating''} \<and>
   pitch_mode (GimbalProfile_default\<lparr>yaw_mode := ''spin'', pitch_mode := ''rotating''\<rparr>)
     \<notin> {''static'', ''oscillating''} \<and>
   zoom_mode (ZoomProfile_default\<lparr>zoom_mode := ''''\<rparr>) \<notin> {''static'', ''oscillating''} \<and>
   GimbalProfile_yaw (GimbalProfile_default\<lparr>yaw_mode := ''spin'', pitch_mode := ''rotating''\<rparr>) 400 7
     = Inr 40 \<and>
   GimbalProfile_pitch (GimbalProfile_default\<lparr>yaw_mode := ''spin'', pitch_mode := ''rotating''\<rparr>) 7
     = Inr (- 30) \<and>
   ZoomProfile_zoom_factor (ZoomProfile_default\<lparr>zoom_mode := ''''\<rparr>) 7 = Inr 1"
  using unknown_modes_fall_back
    [of "GimbalProfile_default\<lparr>yaw_mode := ''spin'', pitch_mode := ''rotating''\<rparr>" 400 7
        "ZoomProfile_default\<lparr>zoom_mode := ''''\<rparr>"]
  by (simp add: GimbalProfile_default_def ZoomProfile_default_def py_mod_def)

section \<open>Path generators\<close>

subsection \<open>Hover\<close>

text \<open>
  Claim C2, as the code has it. The hover generator is the entry of \<open>PATHS\<close> under
  \<open>''hover''\<close>, and it returns \<open>total_pts\<close> copies of one waypoint: the configured start
  latitude, the configured start longitude, and the configured bearing reduced modulo 360,
  which is the bearing itself when \<open>0 \<le> bearing < 360\<close>.
\<close>

theorem hover_waypoints:
  "PATHS ''hover'' = Some gen_hover \<and>
   gen_hover cfg = Inr (replicate (nat (total_pts cfg))
                          (start_lat cfg, start_lon cfg, py_mod (bearing_deg cfg) 360)) \<and>
   (0 \<le> bearing_deg cfg \<and> bearing_deg cfg < 360 \<longrightarrow>
      py_mod (bearing_deg cfg) 360 = bearing_deg cfg)"
  by (simp add: PATHS_hover gen_hover_def py_mod_id)

theorem hover_waypoints_witness:
  "0 \<le> bearing_deg (FlightConfig_default\<lparr>path_type := ''hover''\<rparr>) \<and>
   bearing_deg (FlightConfig_default\<lparr>path_type := ''hover''\<rparr>) < 360 \<and>
   gen_hover (FlightConfig_default\<lparr>path_type := ''hover'', duration := 2\<rparr>) =
     Inr [(45.53946, - 122.76394, 90), (45.53946, - 122.76394, 90)]"
  using hover_waypoints [of "FlightConfig_default\<lparr>path_type := ''hover'', duration := 2\<rparr>"]
  by (simp add: FlightConfig_default_def total_pts_def numeral_2_eq_2)

text \<open>
  The heading is not the configured bearing in general: a bearing of \<open>-90\<close> gives the
  heading \<open>270\<close>.
\<close>

theorem hover_heading_counterexample:
  "gen_hover (FlightConfig_default\<lparr>path_type := ''hover'', duration := 1, bearing_deg := - 90\<rparr>) =
     Inr [(45.53946, - 122.76394, 270)] \<and>
   bearing_deg (FlightConfig_default\<lparr>path_type := ''hover'', duration := 1, bearing_deg := - 90\<rparr>) \<noteq> 270"
  by (simp add: gen_hover_def FlightConfig_default_def total_pts_def py_mod_def)

subsection \<open>Circle\<close>

lemma gen_circle_Inr:
  assumes "cos (radians (center_lat cfg)) \<noteq> 0"
  shows "gen_circle cfg =
           Inr (map (\<lambda>i. (center_lat cfg
                            + radius_m cfg * cos (radians (real i / of_int (total_pts cfg) * 360)) / 111320,
                          center_lon cfg
                            + radius_m cfg * sin (radians (real i / of_int (total_pts cfg) * 360))
                                / (111320 * cos (radians (center_lat cfg))),
                          py_mod (real i / of_int (total_pts cfg) * 360 + 90) 360))
                 (py_range (total_pts cfg)))"
proof -
  have "for_loop (py_range (total_pts cfg)) (circle_body cfg) [] =
          Inr ([] @ map (\<lambda>i. (center_lat cfg
                            + radius_m cfg * cos (radians (real i / of_int (total_pts cfg) * 360)) / 111320,
                          center_lon cfg
                            + radius_m cfg * sin (radians (real i / of_int (total_pts cfg) * 360))
                                / (111320 * cos (radians (center_lat cfg))),
                          py_mod (real i / of_int (total_pts cfg) * 360 + 90) 360))
                 (py_range (total_pts cfg)))"
  proof (rule for_loop_append)
    fix i out
    assume "i \<in> set (py_range (total_pts cfg))"
    then have "real_of_int (total_pts cfg) \<noteq> 0"
      by (auto simp add: set_py_range)
    then show "circle_body cfg i out = Inr (out @ [(center_lat cfg
                            + radius_m cfg * cos (radians (real i / of_int (total_pts cfg) * 360)) / 111320,
                          center_lon cfg
                            + radius_m cfg * sin (radians (real i / of_int (total_pts cfg) * 360))
                                / (111320 * cos (radians (center_lat cfg))),
                          py_mod (real i / of_int (total_pts cfg) * 360 + 90) 360)])"
      using assms
      by (simp add: circle_body_def py_div_nonzero meters_to_latlon_offset_Inr Let_def)
  qed
  then show ?thesis by (simp add: gen_circle_def)
qed

text \<open>
  Claim C6. For a circle path and every sample index \<open>i\<close> below \<open>total_pts\<close>, waypoint
  \<open>i\<close> lies at bearing \<open>(i / total_pts) * 360\<close> degrees and distance \<open>radius_m\<close> from
  the centre: its offset from the centre is \<open>dlat = radius * cos bearing_rad / 111320\<close>,
  \<open>dlon = radius * sin bearing_rad / (111320 * cos center_lat_rad)\<close>, and its heading is
  \<open>(bearing + 90) mod 360\<close>. The divisor \<open>cos center_lat_rad\<close> of the claim's formula is
  assumed non-zero: that is the polar singularity of the real-number idealisation.
\<close>

theorem circle_waypoints:
  assumes "cos (radians (center_lat cfg)) \<noteq> 0" and "i < nat (total_pts cfg)"
  shows "PATHS ''circle'' = Some gen_circle \<and>
         (\<exists>wps. gen_circle cfg = Inr wps \<and> length wps = nat (total_pts cfg) \<and>
            wps ! i =
              (let bearing = real i / of_int (total_pts cfg) * 360;
                   bearing_rad = radians bearing;
                   dlat = radius_m cfg * cos bearing_rad / 111320;
                   dlon = radius_m cfg * sin bearing_rad / (111320 * cos (radians (center_lat cfg)))
               in (center_lat cfg + dlat, center_lon cfg + dlon, py_mod (bearing + 90) 360)))"
  using assms
  by (simp add: PATHS_def gen_circle_Inr length_py_range nth_py_range Let_def)

theorem circle_waypoints_witness:
  "cos (radians (center_lat (FlightConfig_default\<lparr>duration := 1\<rparr>))) \<noteq> 0 \<and>
   0 < nat (total_pts (FlightConfig_default\<lparr>duration := 1\<rparr>)) \<and>
   gen_circle (FlightConfig_default\<lparr>duration := 1\<rparr>) =
     Inr [(45.53946 + 60 / 111320, - 122.76394, 90)]"
proof -
  have c: "cos (radians (center_lat (FlightConfig_default\<lparr>duration := 1\<rparr>))) \<noteq> 0"
    using cos_radians_pos [of "45.53946"] by (simp add: FlightConfig_default_def)
  have n: "0 < nat (total_pts (FlightConfig_default\<lparr>duration := 1\<rparr>))"
    by (simp add: FlightConfig_default_def total_pts_def)
  obtain wps where w: "gen_circle (FlightConfig_default\<lparr>duration := 1\<rparr>) = Inr wps"
      "length wps = nat (total_pts (FlightConfig_default\<lparr>duration := 1\<rparr>))"
      "wps ! 0 = (45.53946 + 60 / 111320, - 122.76394, 90)"
    using circle_waypoints [OF c n]
    by (auto simp add: FlightConfig_default_def total_pts_def radians_def py_mod_def Let_def)
  from w(2) have "length wps = 1"
    by (simp add: FlightConfig_default_def total_pts_def)
  then have "wps = [wps ! 0]"
    by (cases wps) simp_all
  with w c n show ?thesis by simp
qed

subsection \<open>Straight\<close>

lemma gen_straight_Inr:
  assumes "cos (radians (start_lat cfg)) \<noteq> 0" and "total_pts cfg \<noteq> 0"
  shows "gen_straight cfg =
           Inr (map (\<lambda>i. (start_lat cfg
                            + base (speed cfg) * of_int (duration cfg) / of_int (total_pts cfg) * real i
                                * cos (radians (bearing_deg cfg)) / 111320,
                          start_lon cfg
                            + base (speed cfg) * of_int (duration cfg) / of_int (total_pts cfg) * real i
                                * sin (radians (bearing_deg cfg))
                                / (111320 * cos (radians (start_lat cfg))),
                          py_mod (bearing_deg cfg) 360))
                 (py_range (total_pts cfg)))"
proof -
  have "for_loop (py_range (total_pts cfg))
          (straight_body cfg (base (speed cfg) * of_int (duration cfg) / of_int (total_pts cfg))) [] =
          Inr ([] @ map (\<lambda>i. (start_lat cfg
                            + base (speed cfg) * of_int (duration cfg) / of_int (total_pts cfg) * real i
                                * cos (radians (bearing_deg cfg)) / 111320,
                          start_lon cfg
                            + base (speed cfg) * of_int (duration cfg) / of_int (total_pts cfg) * real i
                                * sin (radians (bearing_deg cfg))
                                / (111320 * cos (radians (start_lat cfg))),
                          py_mod (bearing_deg cfg) 360))
                 (py_range (total_pts cfg)))"
    by (rule for_loop_append)
       (simp add: straight_body_def meters_to_latlon_offset_Inr [OF assms(1)] Let_def)
  then show ?thesis using assms(2)
    by (simp add: gen_straight_def py_div_nonzero Let_def)
qed

text \<open>
  Claim C7, as the code has it. For a straight path the total distance is
  \<open>base * duration\<close> (the speed modulation is ignored), waypoint \<open>i\<close> lies at distance
  \<open>i * (total_distance / total_pts)\<close> from the start point along the configured bearing,
  and every waypoint has the same heading: the configured bearing reduced modulo 360, which
  is the bearing itself when \<open>0 \<le> bearing < 360\<close>. The reference latitude is assumed not
  polar, as for the circle.
\<close>

theorem straight_waypoints:
  assumes "cos (radians (start_lat cfg)) \<noteq> 0" and "i < nat (total_pts cfg)"
  shows "PATHS ''straight'' = Some gen_straight \<and>
         (\<exists>wps. gen_straight cfg = Inr wps \<and> length wps = nat (total_pts cfg) \<and>
            wps ! i =
              (let total_distance = base (speed cfg) * of_int (duration cfg);
                   d = real i * (total_distance / of_int (total_pts cfg));
                   dlat = d * cos (radians (bearing_deg cfg)) / 111320;
                   dlon = d * sin (radians (bearing_deg cfg))
                            / (111320 * cos (radians (start_lat cfg)))
               in (start_lat cfg + dlat, start_lon cfg + dlon, py_mod (bearing_deg cfg) 360))) \<and>
         (0 \<le> bearing_deg cfg \<and> bearing_deg cfg < 360 \<longrightarrow>
            py_mod (bearing_deg cfg) 360 = bearing_deg cfg)"
proof -
  from assms(2) have "total_pts cfg \<noteq> 0" by auto
  then show ?thesis
    using assms
    by (simp add: PATHS_def gen_straight_Inr length_py_range nth_py_range Let_def py_mod_id
          mult.commute)
qed

theorem straight_waypoints_witness:
  "cos (radians (start_lat (FlightConfig_default\<lparr>path_type := ''straight'', duration := 2\<rparr>))) \<noteq> 0 \<and>
   1 < nat (total_pts (FlightConfig_default\<lparr>path_type := ''straight'', duration := 2\<rparr>)) \<and>
   0 \<le> bearing_deg (FlightConfig_default\<lparr>path_type := ''straight'', duration := 2\<rparr>) \<and>
   bearing_deg (FlightConfig_default\<lparr>path_type := ''straight'', duration := 2\<rparr>) < 360 \<and>
   (\<exists>wps. gen_straight (FlightConfig_default\<lparr>path_type := ''straight'', duration := 2\<rparr>) = Inr wps \<and>
      length wps = 2 \<and>
      wps ! 1 = (45.53946, - 122.76394 + 5 / (111320 * cos (radians 45.53946)), 90))"
proof -
  have c: "cos (radians (start_lat (FlightConfig_default\<lparr>path_type := ''straight'', duration := 2\<rparr>))) \<noteq> 0"
    using cos_radians_pos [of "45.53946"] by (simp add: FlightConfig_default_def)
  have n: "1 < nat (total_pts (FlightConfig_default\<lparr>path_type := ''straight'', duration := 2\<rparr>))"
    by (simp add: FlightConfig_default_def total_pts_def)
  show ?thesis
    using straight_waypoints [OF c n] c n
    by (auto simp add: FlightConfig_default_def SpeedProfile_default_def total_pts_def radians_def
          Let_def py_mod_def)
qed

text \<open>
  The heading is not the configured bearing in general: a bearing of \<open>-90\<close> gives the
  heading \<open>270\<close> on the straight path too.
\<close>

theorem straight_heading_counterexample:
  "gen_straight (FlightConfig_default\<lparr>path_type := ''straight'', duration := 1, bearing_deg := - 90\<rparr>) =
     Inr [(45.53946, - 122.76394, 270)] \<and>
   bearing_deg (FlightConfig_default\<lparr>path_type := ''straight'', duration := 1, bearing_deg := - 90\<rparr>)
     \<noteq> 270"
proof -
  have c: "cos (radians (start_lat
             (FlightConfig_default\<lparr>path_type := ''straight'', duration := 1, bearing_deg := - 90\<rparr>))) \<noteq> 0"
    using cos_radians_pos [of "45.53946"] by (simp add: FlightConfig_default_def)
  have n: "total_pts (FlightConfig_default\<lparr>path_type := ''straight'', duration := 1, bearing_deg := - 90\<rparr>) \<noteq> 0"
    by (simp add: FlightConfig_default_def total_pts_def)
  show ?thesis
    using gen_straight_Inr [OF c n]
    by (simp add: FlightConfig_default_def total_pts_def py_range_def py_mod_def)
qed

subsection \<open>Triangle\<close>

text \<open>The three vertices exist when the reference latitude is not polar; every edge adds
  \<open>pts_per_edge\<close> points; the final loop pads with copies of the last point, and never
  shortens the list.\<close>

lemma verts_Inr:
  assumes "cos (radians (center_lat cfg)) \<noteq> 0"
  shows "\<exists>verts. for_loop (py_range 3) (verts_body cfg) [] = Inr verts"
proof -
  have "for_loop (py_range 3) (verts_body cfg) [] =
          Inr ([] @ map (\<lambda>k. (center_lat cfg
                  + tri_edge_m cfg / sqrt 3 * cos (radians (90 + real k * 120)) / 111320,
                center_lon cfg
                  + tri_edge_m cfg / sqrt 3 * sin (radians (90 + real k * 120))
                      / (111320 * cos (radians (center_lat cfg))))) (py_range 3))"
    by (rule for_loop_append)
       (simp add: verts_body_def meters_to_latlon_offset_Inr [OF assms] Let_def)
  then show ?thesis by blast
qed

lemma point_body_Inr:
  assumes "j \<in> set (py_range pts_per_edge)"
  shows "point_body pts_per_edge v1 v2 j out =
           Inr (out @ [(fst v1 + real j / of_int pts_per_edge * (fst v2 - fst v1),
                        snd v1 + real j / of_int pts_per_edge * (snd v2 - snd v1),
                        py_mod (degrees (atan2 (snd v2 - snd v1) (fst v2 - fst v1))) 360)])"
proof -
  from assms have "real_of_int pts_per_edge \<noteq> 0"
    by (auto simp add: set_py_range)
  then show ?thesis
    by (cases v1; cases v2) (simp add: point_body_def py_div_nonzero Let_def)
qed

lemma edge_body_Inr:
  "\<exists>pts. edge_body pts_per_edge verts e out = Inr (out @ pts) \<and> length pts = nat pts_per_edge"
proof -
  have "for_loop (py_range pts_per_edge)
          (point_body pts_per_edge (verts ! e) (verts ! ((e + 1) mod 3))) out =
        Inr (out @ map (\<lambda>j. (fst (verts ! e) + real j / of_int pts_per_edge
                                  * (fst (verts ! ((e + 1) mod 3)) - fst (verts ! e)),
                              snd (verts ! e) + real j / of_int pts_per_edge
                                  * (snd (verts ! ((e + 1) mod 3)) - snd (verts ! e)),
                              py_mod (degrees (atan2 (snd (verts ! ((e + 1) mod 3)) - snd (verts ! e))
                                         (fst (verts ! ((e + 1) mod 3)) - fst (verts ! e)))) 360))
                     (py_range pts_per_edge))"
    by (rule for_loop_append) (rule point_body_Inr)
  then show ?thesis
    by (simp add: edge_body_def length_py_range)
qed

lemma edges_loop_length:
  "\<exists>pts. for_loop es (edge_body pts_per_edge verts) out = Inr (out @ pts) \<and>
          length pts = length es * nat pts_per_edge"
proof (induction es arbitrary: out)
  case Nil
  then show ?case by simp
next
  case (Cons e es)
  obtain p1 where p1: "edge_body pts_per_edge verts e out = Inr (out @ p1)"
      "length p1 = nat pts_per_edge"
    using edge_body_Inr by blast
  obtain p2 where p2: "for_loop es (edge_body pts_per_edge verts) (out @ p1) = Inr ((out @ p1) @ p2)"
      "length p2 = length es * nat pts_per_edge"
    using Cons.IH by blast
  have "for_loop (e # es) (edge_body pts_per_edge verts) out = Inr (out @ (p1 @ p2))"
    using p1 p2 by simp
  moreover have "length (p1 @ p2) = length (e # es) * nat pts_per_edge"
    using p1 p2 by simp
  ultimately show ?case by blast
qed

lemma pad_tail_length:
  assumes "out \<noteq> []"
  shows "\<exists>r. pad_tail n out = Inr r \<and> length r = max (length out) (nat n)"
  using assms
proof (induction n out rule: pad_tail.induct)
  case (1 n out)
  show ?case
  proof (cases "int (length out) < n")
    case True
    with "1.prems" obtain r where r: "pad_tail n (out @ [last out]) = Inr r"
        "length r = max (length (out @ [last out])) (nat n)"
      using "1.IH" by auto
    have "pad_tail n out = Inr r"
      using True "1.prems" r(1) by (subst pad_tail.simps) simp
    moreover have "length r = max (length out) (nat n)"
      using r(2) True by auto
    ultimately show ?thesis by blast
  next
    case False
    then have "pad_tail n out = Inr out"
      by (subst pad_tail.simps) simp
    moreover have "length out = max (length out) (nat n)"
      using False by auto
    ultimately show ?thesis by blast
  qed
qed

lemma pad_tail_replicate:
  assumes "out \<noteq> []"
  shows "pad_tail n out = Inr (out @ replicate (nat n - length out) (last out))"
  using assms
proof (induction n out rule: pad_tail.induct)
  case (1 n out)
  show ?case
  proof (cases "int (length out) < n")
    case True
    then have "nat n - length out = Suc (nat n - Suc (length out))"
      by linarith
    then have "out @ replicate (nat n - length out) (last out) =
                 (out @ [last out]) @ replicate (nat n - length (out @ [last out])) (last (out @ [last out]))"
      by simp
    moreover have "pad_tail n out = pad_tail n (out @ [last out])"
      using True "1.prems" by (subst pad_tail.simps) simp
    ultimately show ?thesis
      using "1.IH" [OF True "1.prems"] by simp
  next
    case False
    then have "pad_tail n out = Inr out"
      by (subst pad_tail.simps) simp
    moreover have "nat n - length out = 0"
      using False by linarith
    ultimately show ?thesis by simp
  qed
qed

lemma gen_triangle_length:
  assumes "cos (radians (center_lat cfg)) \<noteq> 0" and "0 \<le> total_pts cfg"
  shows "\<exists>pts. gen_triangle cfg = Inr pts \<and>
           length pts = max (3 * nat (if total_pts cfg div 3 = 0 then 1 else total_pts cfg div 3))
                            (nat (total_pts cfg))"
proof -
  let ?ppe = "if total_pts cfg div 3 = 0 then 1 else total_pts cfg div 3"
  obtain verts where v: "for_loop (py_range 3) (verts_body cfg) [] = Inr verts"
    using verts_Inr [OF assms(1)] by blast
  obtain out where o: "for_loop (py_range 3) (edge_body ?ppe verts) [] = Inr ([] @ out)"
      "length out = length (py_range 3) * nat ?ppe"
    using edges_loop_length by blast
  have "0 < ?ppe" using assms(2)
    by (auto simp add: pos_imp_zdiv_nonneg_iff order_less_le)
  then have "out \<noteq> []" using o(2) by (auto simp add: length_py_range)
  then obtain r where r: "pad_tail (total_pts cfg) out = Inr r"
      "length r = max (length out) (nat (total_pts cfg))"
    using pad_tail_length by blast
  have "gen_triangle cfg = Inr r"
    using v o(1) r(1) by (simp add: gen_triangle_def Let_def)
  moreover have "length r = max (3 * nat ?ppe) (nat (total_pts cfg))"
    using r(2) o(2) by (simp add: length_py_range)
  ultimately show ?thesis by blast
qed

lemma gen_triangle_length_exact:
  assumes "cos (radians (center_lat cfg)) \<noteq> 0" and "3 \<le> total_pts cfg"
  shows "\<exists>pts. gen_triangle cfg = Inr pts \<and> length pts = nat (total_pts cfg)"
proof -
  from assms(2) have "0 \<le> total_pts cfg" by simp
  from gen_triangle_length [OF assms(1) this] obtain pts where
    p: "gen_triangle cfg = Inr pts"
       "length pts = max (3 * nat (if total_pts cfg div 3 = 0 then 1 else total_pts cfg div 3))
                            (nat (total_pts cfg))"
    by blast
  have "3 * nat (if total_pts cfg div 3 = 0 then 1 else total_pts cfg div 3) \<le> nat (total_pts cfg)"
    using assms(2) by auto
  with p show ?thesis by auto
qed

lemma gen_triangle_padding:
  assumes "cos (radians (center_lat cfg)) \<noteq> 0" and "3 \<le> total_pts cfg"
  shows "\<exists>out. out \<noteq> [] \<and> int (length out) = 3 * (total_pts cfg div 3) \<and>
           gen_triangle cfg = Inr (out @ replicate (nat (total_pts cfg mod 3)) (last out))"
proof -
  let ?q = "total_pts cfg div 3"
  have q: "0 < ?q" using assms(2) by simp
  obtain verts where v: "for_loop (py_range 3) (verts_body cfg) [] = Inr verts"
    using verts_Inr [OF assms(1)] by blast
  obtain out where o: "for_loop (py_range 3) (edge_body ?q verts) [] = Inr ([] @ out)"
      "length out = length (py_range 3) * nat ?q"
    using edges_loop_length by blast
  have len: "int (length out) = 3 * ?q"
    using o(2) q by (simp add: length_py_range)
  have ne: "out \<noteq> []" using len q by auto
  have le: "length out \<le> nat (total_pts cfg)"
    using len assms(2) by linarith
  have "int (nat (total_pts cfg) - length out) = int (nat (total_pts cfg)) - int (length out)"
    using le by (simp add: of_nat_diff)
  also have "\<dots> = total_pts cfg - 3 * (total_pts cfg div 3)"
    using len assms(2) by simp
  also have "\<dots> = total_pts cfg mod 3"
    by (simp add: minus_mult_div_eq_mod)
  finally have "nat (total_pts cfg) - length out = nat (total_pts cfg mod 3)"
    by linarith
  then have "pad_tail (total_pts cfg) out = Inr (out @ replicate (nat (total_pts cfg mod 3)) (last out))"
    using pad_tail_replicate [OF ne, of "total_pts cfg"] by simp
  then have "gen_triangle cfg = Inr (out @ replicate (nat (total_pts cfg mod 3)) (last out))"
    using v o(1) q by (simp add: gen_triangle_def Let_def)
  with ne len show ?thesis by blast
qed

section \<open>Entry generation\<close>

subsection \<open>Unknown path types\<close>

text \<open>
  Claim C10. When \<open>path_type\<close> is none of \<open>circle\<close>, \<open>straight\<close>, \<open>triangle\<close>,
  \<open>hover\<close>, \<open>generate_entries\<close> raises \<open>KeyError\<close> at the lookup in \<open>PATHS\<close>, so
  no record is produced; there is no fallback path.
\<close>

theorem unknown_path_type_KeyError:
  assumes "path_type cfg \<notin> {''circle'', ''straight'', ''triangle'', ''hover''}"
  shows "generate_entries start_time cfg = Inl KeyError"
  using assms by (simp add: generate_entries_def PATHS_def)

theorem unknown_path_type_KeyError_witness:
  "path_type (FlightConfig_default\<lparr>path_type := ''square''\<rparr>)
     \<notin> {''circle'', ''straight'', ''triangle'', ''hover''} \<and>
   generate_entries 0 (FlightConfig_default\<lparr>path_type := ''square''\<rparr>) = Inl KeyError"
  using unknown_path_type_KeyError [of "FlightConfig_default\<lparr>path_type := ''square''\<rparr>" 0]
  by (simp add: FlightConfig_default_def)

subsection \<open>The loop over the waypoints\<close>

text \<open>What one pass of the loop body produces, and when it produces anything.\<close>

lemma entry_body_result:
  assumes "entry_body st cfg (i, w) (es, fd) = Inr (es', fd')"
  shows "hz cfg \<noteq> 0 \<and>
         SpeedProfile_speed (speed cfg) (real i / of_int (hz cfg)) = Inr (sample_speed cfg i) \<and>
         fd' = fd + sample_speed cfg i / of_int (hz cfg) \<and>
         (\<exists>e. es' = es @ [e] \<and>
              flight_distance (data e) = py_round fd' 1 \<and>
              speed_field (data e) = py_round (sample_speed cfg i) 2 \<and>
              current_datetime (data e) = st + py_round (real i / of_int (hz cfg)) 6)"
proof -
  obtain lat lon heading where w: "w = (lat, lon, heading)"
    by (cases w) auto
  from assms obtain t spd inc where
    t: "py_div (real i) (of_int (hz cfg)) = Inr t" and
    spd: "SpeedProfile_speed (speed cfg) t = Inr spd" and
    inc: "py_div spd (of_int (hz cfg)) = Inr inc" and
    rest: "\<exists>e. es' = es @ [e] \<and> fd' = fd + inc \<and>
              flight_distance (data e) = py_round (fd + inc) 1 \<and>
              speed_field (data e) = py_round spd 2 \<and>
              current_datetime (data e) = st + py_round t 6"
    unfolding entry_body_def w
    by (auto simp add: and_then_eq_Inr Let_def)
  from t have hz: "hz cfg \<noteq> 0" and tv: "t = real i / of_int (hz cfg)"
    by (simp_all add: py_div_eq_Inr)
  from inc hz have iv: "inc = spd / of_int (hz cfg)"
    by (simp add: py_div_eq_Inr)
  have ss: "sample_speed cfg i = spd"
    using spd tv by (simp add: sample_speed_def)
  show ?thesis
    using hz spd tv iv ss rest by auto
qed

lemma SpeedProfile_speed_Inr:
  "speed_sine_period p \<noteq> 0 \<Longrightarrow> \<exists>v. SpeedProfile_speed p t = Inr v"
  by (simp add: SpeedProfile_speed_def py_div_nonzero)

lemma AltitudeProfile_height_Inr:
  "alt_sine_amp p = 0 \<or> alt_sine_period p \<noteq> 0 \<Longrightarrow> \<exists>v. AltitudeProfile_height p t = Inr v"
  by (auto simp add: AltitudeProfile_height_def Let_def py_div_nonzero)

lemma GimbalProfile_roll_Inr:
  "roll_period g \<noteq> 0 \<Longrightarrow> \<exists>v. GimbalProfile_roll g t = Inr v"
  by (simp add: GimbalProfile_roll_def py_div_nonzero)

lemma GimbalProfile_pitch_Inr:
  "pitch_mode g \<noteq> ''oscillating'' \<or> pitch_period g \<noteq> 0 \<Longrightarrow> \<exists>v. GimbalProfile_pitch g t = Inr v"
  by (auto simp add: GimbalProfile_pitch_def py_div_nonzero)

lemma GimbalProfile_yaw_Inr:
  "yaw_mode g \<noteq> ''oscillating'' \<or> yaw_period g \<noteq> 0 \<Longrightarrow> \<exists>v. GimbalProfile_yaw g h t = Inr v"
  by (auto simp add: GimbalProfile_yaw_def py_div_nonzero)

lemma ZoomProfile_zoom_factor_Inr:
  "zoom_mode z \<noteq> ''oscillating'' \<or> zoom_period z \<noteq> 0 \<Longrightarrow> \<exists>v. ZoomProfile_zoom_factor z t = Inr v"
  by (auto simp add: ZoomProfile_zoom_factor_def Let_def py_div_nonzero)

lemma entry_body_Inr:
  assumes "periods_nonzero cfg" and "hz cfg \<noteq> 0"
  shows "\<exists>e fd'. entry_body st cfg (i, w) (es, fd) = Inr (es @ [e], fd')"
proof -
  obtain lat lon heading where w: "w = (lat, lon, heading)"
    by (cases w) auto
  let ?t = "real i / of_int (hz cfg)"
  from assms(1) obtain spd where spd: "SpeedProfile_speed (speed cfg) ?t = Inr spd"
    using SpeedProfile_speed_Inr unfolding periods_nonzero_def by blast
  from assms(1) obtain h where h: "AltitudeProfile_height (altitude cfg) ?t = Inr h"
    using AltitudeProfile_height_Inr unfolding periods_nonzero_def by blast
  from assms(1) obtain r where r: "GimbalProfile_roll (gimbal cfg) ?t = Inr r"
    using GimbalProfile_roll_Inr unfolding periods_nonzero_def by blast
  from assms(1) obtain p where p: "GimbalProfile_pitch (gimbal cfg) ?t = Inr p"
    using GimbalProfile_pitch_Inr unfolding periods_nonzero_def by blast
  from assms(1) obtain y where y: "GimbalProfile_yaw (gimbal cfg) heading ?t = Inr y"
    using GimbalProfile_yaw_Inr unfolding periods_nonzero_def by blast
  from assms(1) obtain z where z: "ZoomProfile_zoom_factor (zoom cfg) ?t = Inr z"
    using ZoomProfile_zoom_factor_Inr unfolding periods_nonzero_def by blast
  show ?thesis
    using assms(2) spd h r p y z
    by (simp add: entry_body_def w py_div_nonzero Let_def)
qed

lemma entries_loop_Inr:
  assumes "periods_nonzero cfg" and "hz cfg \<noteq> 0"
  shows "\<exists>es' fd'. for_loop (enumerate n pts) (entry_body st cfg) (es, fd) = Inr (es', fd') \<and>
           length es' = length es + length pts"
proof (induction pts arbitrary: n es fd)
  case Nil
  then show ?case by simp
next
  case (Cons w pts)
  obtain e fd1 where e: "entry_body st cfg (n, w) (es, fd) = Inr (es @ [e], fd1)"
    using entry_body_Inr [OF assms] by blast
  obtain es' fd' where r: "for_loop (enumerate (Suc n) pts) (entry_body st cfg) (es @ [e], fd1)
                             = Inr (es', fd')" "length es' = length (es @ [e]) + length pts"
    using Cons.IH by blast
  have "for_loop (enumerate n (w # pts)) (entry_body st cfg) (es, fd) = Inr (es', fd')"
    using e r(1) by simp
  moreover have "length es' = length es + length (w # pts)"
    using r(2) by simp
  ultimately show ?case by blast
qed

lemma generate_entries_Inr:
  assumes "periods_nonzero cfg" and "hz cfg \<noteq> 0"
    and "PATHS (path_type cfg) = Some gen" and "gen cfg = Inr pts"
  shows "\<exists>es. generate_entries st cfg = Inr es \<and> length es = length pts"
proof -
  obtain es' fd' where r: "for_loop (enumerate 0 pts) (entry_body st cfg) ([], 0) = Inr (es', fd')"
      "length es' = length ([] :: Entry list) + length pts"
    using entries_loop_Inr [OF assms(1,2)] by blast
  then show ?thesis
    using assms(3,4) by (simp add: generate_entries_def)
qed

lemma entries_loop_values:
  assumes "for_loop (enumerate 0 pts) (entry_body st cfg) ([], 0) = Inr (es, fd)"
  shows "length es = length pts \<and>
         fd = (\<Sum>k<length pts. sample_speed cfg k / of_int (hz cfg)) \<and>
         (\<forall>i<length pts.
            SpeedProfile_speed (speed cfg) (real i / of_int (hz cfg)) = Inr (sample_speed cfg i) \<and>
            flight_distance (data (es ! i))
              = py_round (\<Sum>k\<le>i. sample_speed cfg k / of_int (hz cfg)) 1 \<and>
            speed_field (data (es ! i)) = py_round (sample_speed cfg i) 2 \<and>
            current_datetime (data (es ! i)) = st + py_round (real i / of_int (hz cfg)) 6)"
  using assms
proof (induction pts arbitrary: es fd rule: rev_induct)
  case Nil
  then show ?case by simp
next
  case (snoc w pts)
  let ?n = "length pts"
  have "for_loop (enumerate 0 (pts @ [w])) (entry_body st cfg) ([], 0) =
          and_then (for_loop (enumerate 0 pts) (entry_body st cfg) ([], 0))
            (entry_body st cfg (?n, w))"
    by (simp add: enumerate_append_eq for_loop_snoc)
  with snoc.prems obtain es0 fd0 where
    pre: "for_loop (enumerate 0 pts) (entry_body st cfg) ([], 0) = Inr (es0, fd0)" and
    last: "entry_body st cfg (?n, w) (es0, fd0) = Inr (es, fd)"
    by (auto simp add: and_then_eq_Inr)
  note ih = snoc.IH [OF pre]
  from entry_body_result [OF last] obtain e where
    sp: "SpeedProfile_speed (speed cfg) (real ?n / of_int (hz cfg)) = Inr (sample_speed cfg ?n)" and
    fd: "fd = fd0 + sample_speed cfg ?n / of_int (hz cfg)" and
    es: "es = es0 @ [e]" and
    e1: "flight_distance (data e) = py_round fd 1" and
    e2: "speed_field (data e) = py_round (sample_speed cfg ?n) 2" and
    e3: "current_datetime (data e) = st + py_round (real ?n / of_int (hz cfg)) 6"
    by blast
  have len: "length es = length (pts @ [w])"
    using ih es by simp
  have fdsum: "fd = (\<Sum>k<length (pts @ [w]). sample_speed cfg k / of_int (hz cfg))"
    using ih fd by simp
  have fdsum': "fd = (\<Sum>k\<le>?n. sample_speed cfg k / of_int (hz cfg))"
    using fdsum by (simp add: lessThan_Suc_atMost)
  have "\<forall>i<length (pts @ [w]).
            SpeedProfile_speed (speed cfg) (real i / of_int (hz cfg)) = Inr (sample_speed cfg i) \<and>
            flight_distance (data (es ! i))
              = py_round (\<Sum>k\<le>i. sample_speed cfg k / of_int (hz cfg)) 1 \<and>
            speed_field (data (es ! i)) = py_round (sample_speed cfg i) 2 \<and>
            current_datetime (data (es ! i)) = st + py_round (real i / of_int (hz cfg)) 6"
  proof (intro allI impI)
    fix i assume "i < length (pts @ [w])"
    then consider "i < ?n" | "i = ?n" by force
    then show "SpeedProfile_speed (speed cfg) (real i / of_int (hz cfg)) = Inr (sample_speed cfg i) \<and>
            flight_distance (data (es ! i))
              = py_round (\<Sum>k\<le>i. sample_speed cfg k / of_int (hz cfg)) 1 \<and>
            speed_field (data (es ! i)) = py_round (sample_speed cfg i) 2 \<and>
            current_datetime (data (es ! i)) = st + py_round (real i / of_int (hz cfg)) 6"
    proof cases
      case 1
      then have "es ! i = es0 ! i" using ih es by (simp add: nth_append)
      then show ?thesis using ih 1 by simp
    next
      case 2
      then have "es ! i = e" using ih es by (simp add: nth_append)
      then show ?thesis using 2 sp e1 e2 e3 fdsum' by simp
    qed
  qed
  with len fdsum show ?case by blast
qed

lemma generate_entries_eq_Inr:
  assumes "generate_entries st cfg = Inr es"
  shows "\<exists>gen pts fd. PATHS (path_type cfg) = Some gen \<and> gen cfg = Inr pts \<and>
           for_loop (enumerate 0 pts) (entry_body st cfg) ([], 0) = Inr (es, fd)"
  using assms
  by (auto simp add: generate_entries_def and_then_eq_Inr split: option.splits)

lemma periods_nonzero_default:
  "periods_nonzero (FlightConfig_default\<lparr>path_type := p, duration := d\<rparr>)"
  by (simp add: periods_nonzero_def FlightConfig_default_def SpeedProfile_default_def
        AltitudeProfile_default_def GimbalProfile_default_def ZoomProfile_default_def)

lemma cos_default_lat: "cos (radians 45.53946) \<noteq> 0"
  using cos_radians_pos [of "45.53946"] by simp

lemma sample_speed_constant:
  assumes "speed_sine_amp (speed cfg) = 0" and "speed_sine_period (speed cfg) \<noteq> 0"
  shows "sample_speed cfg i = base (speed cfg)"
  using assms by (simp add: sample_speed_def SpeedProfile_speed_def py_div_nonzero)

lemma hover_entries_length:
  assumes "periods_nonzero c" and "hz c \<noteq> 0" and "path_type c = ''hover''"
  shows "\<exists>es. generate_entries st c = Inr es \<and> length es = nat (total_pts c)"
proof -
  have g: "PATHS (path_type c) = Some gen_hover"
    using assms(3) by (simp add: PATHS_hover)
  have p: "gen_hover c = Inr (replicate (nat (total_pts c))
                               (start_lat c, start_lon c, py_mod (bearing_deg c) 360))"
    by (simp add: gen_hover_def)
  from generate_entries_Inr [OF assms(1,2) g p, of st] show ?thesis by simp
qed

lemma hover_two_entries:
  assumes "periods_nonzero c" and "hz c \<noteq> 0" and "path_type c = ''hover''"
    and "total_pts c = 2"
  shows "\<exists>a b. generate_entries st c = Inr [a, b]"
proof -
  have g: "PATHS (path_type c) = Some gen_hover"
    using assms(3) by (simp add: PATHS_hover)
  have p: "gen_hover c = Inr (replicate 2 (start_lat c, start_lon c, py_mod (bearing_deg c) 360))"
    using assms(4) by (simp add: gen_hover_def)
  obtain es where es: "generate_entries st c = Inr es"
      "length es = length (replicate 2 (start_lat c, start_lon c, py_mod (bearing_deg c) 360))"
    using generate_entries_Inr [OF assms(1,2) g p] by blast
  from es(2) have "length es = Suc (Suc 0)" by simp
  then obtain a b where "es = [a, b]"
    by (auto simp add: length_Suc_conv)
  with es(1) show ?thesis by blast
qed

lemma hover_one_entry:
  assumes "periods_nonzero c" and "hz c \<noteq> 0" and "path_type c = ''hover''"
    and "total_pts c = 1"
  shows "\<exists>a. generate_entries st c = Inr [a]"
proof -
  have g: "PATHS (path_type c) = Some gen_hover"
    using assms(3) by (simp add: PATHS_hover)
  have p: "gen_hover c = Inr (replicate 1 (start_lat c, start_lon c, py_mod (bearing_deg c) 360))"
    using assms(4) by (simp add: gen_hover_def)
  obtain es where es: "generate_entries st c = Inr es"
      "length es = length (replicate 1 (start_lat c, start_lon c, py_mod (bearing_deg c) 360))"
    using generate_entries_Inr [OF assms(1,2) g p] by blast
  from es(2) have "length es = Suc 0" by simp
  then obtain a where "es = [a]"
    by (auto simp add: length_Suc_conv)
  with es(1) show ?thesis by blast
qed

subsection \<open>When the loop raises\<close>

text \<open>Every exception of the loop body is a division by zero, and the body returns exactly
  when none of its divisions is by zero.\<close>

lemma SpeedProfile_speed_cases:
  "SpeedProfile_speed p t =
     (if speed_sine_period p = 0 then Inl ZeroDivisionError
      else Inr (base p + speed_sine_amp p * sin (2 * pi * t / speed_sine_period p)))"
  by (simp add: SpeedProfile_speed_def py_div_def)

lemma AltitudeProfile_height_raises:
  "(\<exists>v. AltitudeProfile_height p t = Inr v) \<or> AltitudeProfile_height p t = Inl ZeroDivisionError"
  by (simp add: AltitudeProfile_height_def Let_def py_div_def)

lemma AltitudeProfile_height_Inr_iff:
  "(\<exists>v. AltitudeProfile_height p t = Inr v) \<longleftrightarrow>
     t \<le> 0 \<or> alt_sine_amp p = 0 \<or> alt_sine_period p \<noteq> 0"
  by (simp add: AltitudeProfile_height_def Let_def py_div_def)

lemma GimbalProfile_roll_cases:
  "GimbalProfile_roll g t =
     (if roll_period g = 0 then Inl ZeroDivisionError
      else Inr (roll_amp g * sin (2 * pi * t / roll_period g)))"
  by (simp add: GimbalProfile_roll_def py_div_def)

lemma GimbalProfile_pitch_raises:
  "(\<exists>v. GimbalProfile_pitch g t = Inr v) \<or> GimbalProfile_pitch g t = Inl ZeroDivisionError"
  by (simp add: GimbalProfile_pitch_def py_div_def)

lemma GimbalProfile_pitch_Inr_iff:
  "(\<exists>v. GimbalProfile_pitch g t = Inr v) \<longleftrightarrow>
     pitch_mode g \<noteq> ''oscillating'' \<or> pitch_period g \<noteq> 0"
  by (simp add: GimbalProfile_pitch_def py_div_def)

lemma GimbalProfile_yaw_raises:
  "(\<exists>v. GimbalProfile_yaw g h t = Inr v) \<or> GimbalProfile_yaw g h t = Inl ZeroDivisionError"
  by (simp add: GimbalProfile_yaw_def py_div_def)

lemma GimbalProfile_yaw_Inr_iff:
  "(\<exists>v. GimbalProfile_yaw g h t = Inr v) \<longleftrightarrow>
     yaw_mode g \<noteq> ''oscillating'' \<or> yaw_period g \<noteq> 0"
  by (simp add: GimbalProfile_yaw_def py_div_def)

lemma ZoomProfile_zoom_factor_raises:
  "(\<exists>v. ZoomProfile_zoom_factor z t = Inr v) \<or> ZoomProfile_zoom_factor z t = Inl ZeroDivisionError"
  by (simp add: ZoomProfile_zoom_factor_def Let_def py_div_def)

lemma ZoomProfile_zoom_factor_Inr_iff:
  "(\<exists>v. ZoomProfile_zoom_factor z t = Inr v) \<longleftrightarrow>
     zoom_mode z \<noteq> ''oscillating'' \<or> zoom_period z \<noteq> 0"
  by (simp add: ZoomProfile_zoom_factor_def Let_def py_div_def)

lemma and_then_raises:
  assumes "(\<exists>v. r = Inr v) \<or> r = Inl E"
    and "\<And>v. (\<exists>w. f v = Inr w) \<or> f v = Inl E"
  shows "(\<exists>w. and_then r f = Inr w) \<or> and_then r f = Inl E"
  using assms by (cases r) auto

lemma py_div_raises: "(\<exists>v. py_div a b = Inr v) \<or> py_div a b = Inl ZeroDivisionError"
  by (simp add: py_div_def)

lemma entry_body_raises:
  "(\<exists>r. entry_body st cfg iw s = Inr r) \<or> entry_body st cfg iw s = Inl ZeroDivisionError"
proof -
  obtain i lat lon heading where iw: "iw = (i, lat, lon, heading)"
    by (cases iw) auto
  obtain es fd where s: "s = (es, fd)" by (cases s)
  have sp: "\<And>t. (\<exists>v. SpeedProfile_speed (speed cfg) t = Inr v) \<or>
              SpeedProfile_speed (speed cfg) t = Inl ZeroDivisionError"
    by (simp add: SpeedProfile_speed_cases)
  have ro: "\<And>t. (\<exists>v. GimbalProfile_roll (gimbal cfg) t = Inr v) \<or>
              GimbalProfile_roll (gimbal cfg) t = Inl ZeroDivisionError"
    by (simp add: GimbalProfile_roll_cases)
  show ?thesis
    unfolding iw s entry_body_def prod.case Let_def
    by (intro and_then_raises py_div_raises sp ro AltitudeProfile_height_raises
          GimbalProfile_pitch_raises GimbalProfile_yaw_raises ZoomProfile_zoom_factor_raises)
       simp
qed

lemma entry_body_Inr_iff:
  "(\<exists>r. entry_body st cfg (i, w) s = Inr r) \<longleftrightarrow>
     hz cfg \<noteq> 0 \<and>
     speed_sine_period (speed cfg) \<noteq> 0 \<and>
     roll_period (gimbal cfg) \<noteq> 0 \<and>
     (real i / of_int (hz cfg) \<le> 0 \<or> alt_sine_amp (altitude cfg) = 0 \<or>
      alt_sine_period (altitude cfg) \<noteq> 0) \<and>
     (yaw_mode (gimbal cfg) \<noteq> ''oscillating'' \<or> yaw_period (gimbal cfg) \<noteq> 0) \<and>
     (pitch_mode (gimbal cfg) \<noteq> ''oscillating'' \<or> pitch_period (gimbal cfg) \<noteq> 0) \<and>
     (zoom_mode (zoom cfg) \<noteq> ''oscillating'' \<or> zoom_period (zoom cfg) \<noteq> 0)"
  (is "?L \<longleftrightarrow> ?R")
proof -
  obtain lat lon heading where w: "w = (lat, lon, heading)"
    by (cases w) auto
  obtain es fd where s: "s = (es, fd)" by (cases s)
  let ?t = "real i / of_int (hz cfg)"
  have "?L \<longleftrightarrow>
        hz cfg \<noteq> 0 \<and>
        (\<exists>v. SpeedProfile_speed (speed cfg) ?t = Inr v) \<and>
        (\<exists>v. AltitudeProfile_height (altitude cfg) ?t = Inr v) \<and>
        (\<exists>v. GimbalProfile_roll (gimbal cfg) ?t = Inr v) \<and>
        (\<exists>v. GimbalProfile_pitch (gimbal cfg) ?t = Inr v) \<and>
        (\<exists>v. GimbalProfile_yaw (gimbal cfg) heading ?t = Inr v) \<and>
        (\<exists>v. ZoomProfile_zoom_factor (zoom cfg) ?t = Inr v)"
    unfolding w s entry_body_def prod.case Let_def
    by (auto simp add: and_then_eq_Inr py_div_eq_Inr)
  also have "\<dots> \<longleftrightarrow> ?R"
    unfolding AltitudeProfile_height_Inr_iff GimbalProfile_pitch_Inr_iff
      GimbalProfile_yaw_Inr_iff ZoomProfile_zoom_factor_Inr_iff
    by (auto simp add: SpeedProfile_speed_cases GimbalProfile_roll_cases)
  finally show ?thesis .
qed

lemma for_loop_raises:
  assumes "\<And>x s. (\<exists>r. body x s = Inr r) \<or> body x s = Inl E"
  shows "(\<exists>r. for_loop xs body s = Inr r) \<or> for_loop xs body s = Inl E"
proof (induction xs arbitrary: s)
  case Nil
  then show ?case by simp
next
  case (Cons x xs)
  from assms [of x s] show ?case
  proof
    assume "\<exists>r. body x s = Inr r"
    then obtain r where "body x s = Inr r" by blast
    then show ?thesis using Cons.IH [of r] by simp
  next
    assume "body x s = Inl E"
    then show ?thesis by simp
  qed
qed

lemma for_loop_Inr_each:
  assumes "for_loop xs body s = Inr r" and "k < length xs"
  shows "\<exists>s1 s2. body (xs ! k) s1 = Inr s2"
  using assms
proof (induction xs arbitrary: s k)
  case Nil
  then show ?case by simp
next
  case (Cons x xs)
  from Cons.prems(1) obtain s' where s': "body x s = Inr s'" "for_loop xs body s' = Inr r"
    by (cases "body x s") simp_all
  show ?case
  proof (cases k)
    case 0
    then show ?thesis using s'(1) by auto
  next
    case (Suc j)
    then have "j < length xs" using Cons.prems(2) by simp
    from Cons.IH [OF s'(2) this] show ?thesis using Suc by simp
  qed
qed

lemma entries_loop_Inr_from:
  assumes "0 < hz cfg"
    and "speed_sine_period (speed cfg) \<noteq> 0"
    and "roll_period (gimbal cfg) \<noteq> 0"
    and "yaw_mode (gimbal cfg) \<noteq> ''oscillating'' \<or> yaw_period (gimbal cfg) \<noteq> 0"
    and "pitch_mode (gimbal cfg) \<noteq> ''oscillating'' \<or> pitch_period (gimbal cfg) \<noteq> 0"
    and "zoom_mode (zoom cfg) \<noteq> ''oscillating'' \<or> zoom_period (zoom cfg) \<noteq> 0"
    and "alt_sine_amp (altitude cfg) = 0 \<or> alt_sine_period (altitude cfg) \<noteq> 0 \<or>
         n + length pts \<le> 1"
  shows "\<exists>es' fd'. for_loop (enumerate n pts) (entry_body st cfg) (es, fd) = Inr (es', fd') \<and>
           length es' = length es + length pts"
  using assms(7)
proof (induction pts arbitrary: n es fd)
  case Nil
  then show ?case by simp
next
  case (Cons w pts)
  have "real n / of_int (hz cfg) \<le> 0 \<or> alt_sine_amp (altitude cfg) = 0 \<or>
          alt_sine_period (altitude cfg) \<noteq> 0"
    using Cons.prems by auto
  moreover have "hz cfg \<noteq> 0" using assms(1) by simp
  ultimately have "\<exists>r. entry_body st cfg (n, w) (es, fd) = Inr r"
    using assms(2-6) entry_body_Inr_iff [of st cfg n w "(es, fd)"] by blast
  then obtain es1 fd1 where e: "entry_body st cfg (n, w) (es, fd) = Inr (es1, fd1)"
    by auto
  from entry_body_result [OF e] have l1: "length es1 = Suc (length es)" by auto
  have "alt_sine_amp (altitude cfg) = 0 \<or> alt_sine_period (altitude cfg) \<noteq> 0 \<or>
         Suc n + length pts \<le> 1"
    using Cons.prems by auto
  from Cons.IH [OF this, of es1 fd1] obtain es' fd' where
    r: "for_loop (enumerate (Suc n) pts) (entry_body st cfg) (es1, fd1) = Inr (es', fd')"
       "length es' = length es1 + length pts"
    by blast
  have "for_loop (enumerate n (w # pts)) (entry_body st cfg) (es, fd) = Inr (es', fd')"
    using e r(1) by simp
  moreover have "length es' = length es + length (w # pts)"
    using r(2) l1 by simp
  ultimately show ?case by blast
qed

lemma entries_loop_safe:
  assumes "0 < hz cfg" and "pts \<noteq> []"
    and "for_loop (enumerate 0 pts) (entry_body st cfg) s = Inr r"
  shows "speed_sine_period (speed cfg) \<noteq> 0 \<and>
     roll_period (gimbal cfg) \<noteq> 0 \<and>
     (alt_sine_amp (altitude cfg) = 0 \<or> alt_sine_period (altitude cfg) \<noteq> 0 \<or>
      length pts \<le> 1) \<and>
     (yaw_mode (gimbal cfg) \<noteq> ''oscillating'' \<or> yaw_period (gimbal cfg) \<noteq> 0) \<and>
     (pitch_mode (gimbal cfg) \<noteq> ''oscillating'' \<or> pitch_period (gimbal cfg) \<noteq> 0) \<and>
     (zoom_mode (zoom cfg) \<noteq> ''oscillating'' \<or> zoom_period (zoom cfg) \<noteq> 0)"
proof -
  have each: "\<And>k. k < length pts \<Longrightarrow> \<exists>s1 s2. entry_body st cfg (k, pts ! k) s1 = Inr s2"
  proof -
    fix k assume k: "k < length pts"
    then have "k < length (enumerate 0 pts)" by simp
    from for_loop_Inr_each [OF assms(3) this]
    show "\<exists>s1 s2. entry_body st cfg (k, pts ! k) s1 = Inr s2"
      using k by (simp add: nth_enumerate_eq)
  qed
  have "0 < length pts" using assms(2) by simp
  from each [OF this] have first:
    "speed_sine_period (speed cfg) \<noteq> 0 \<and>
     roll_period (gimbal cfg) \<noteq> 0 \<and>
     (yaw_mode (gimbal cfg) \<noteq> ''oscillating'' \<or> yaw_period (gimbal cfg) \<noteq> 0) \<and>
     (pitch_mode (gimbal cfg) \<noteq> ''oscillating'' \<or> pitch_period (gimbal cfg) \<noteq> 0) \<and>
     (zoom_mode (zoom cfg) \<noteq> ''oscillating'' \<or> zoom_period (zoom cfg) \<noteq> 0)"
    using entry_body_Inr_iff [of st cfg 0 "pts ! 0"] by blast
  have "alt_sine_amp (altitude cfg) = 0 \<or> alt_sine_period (altitude cfg) \<noteq> 0 \<or>
      length pts \<le> 1"
  proof (cases "length pts \<le> 1")
    case True
    then show ?thesis by simp
  next
    case False
    then have "Suc 0 < length pts" by simp
    from each [OF this] have
      "real (Suc 0) / of_int (hz cfg) \<le> 0 \<or> alt_sine_amp (altitude cfg) = 0 \<or>
       alt_sine_period (altitude cfg) \<noteq> 0"
      using entry_body_Inr_iff [of st cfg "Suc 0" "pts ! Suc 0"] by blast
    moreover have "0 < real (Suc 0) / of_int (hz cfg)"
      using assms(1) by simp
    ultimately show ?thesis by linarith
  qed
  with first show ?thesis by blast
qed

lemma path_points_length:
  assumes "0 < total_pts cfg"
    and "path_type cfg \<in> {''circle'', ''straight'', ''triangle'', ''hover''}"
    and "path_type cfg \<in> {''circle'', ''triangle''} \<longrightarrow> cos (radians (center_lat cfg)) \<noteq> 0"
    and "path_type cfg = ''straight'' \<longrightarrow> cos (radians (start_lat cfg)) \<noteq> 0"
    and "path_type cfg = ''triangle'' \<longrightarrow> 3 \<le> total_pts cfg"
  shows "\<exists>gen pts. PATHS (path_type cfg) = Some gen \<and> gen cfg = Inr pts \<and>
           length pts = nat (total_pts cfg)"
proof -
  consider "path_type cfg = ''circle''" | "path_type cfg = ''straight''"
    | "path_type cfg = ''triangle''" | "path_type cfg = ''hover''"
    using assms(2) by auto
  then show ?thesis
  proof cases
    case 1
    then have "cos (radians (center_lat cfg)) \<noteq> 0" using assms(3) by simp
    then show ?thesis using 1
      by (simp add: PATHS_circle gen_circle_Inr length_py_range)
  next
    case 2
    then have "cos (radians (start_lat cfg)) \<noteq> 0" using assms(4) by simp
    moreover have "total_pts cfg \<noteq> 0" using assms(1) by simp
    ultimately show ?thesis using 2
      by (simp add: PATHS_straight gen_straight_Inr length_py_range)
  next
    case 3
    then have "cos (radians (center_lat cfg)) \<noteq> 0" "3 \<le> total_pts cfg"
      using assms(3,5) by simp_all
    from gen_triangle_length_exact [OF this] show ?thesis using 3
      by (simp add: PATHS_triangle)
  next
    case 4
    then show ?thesis by (simp add: PATHS_hover gen_hover_def)
  qed
qed

subsection \<open>Number of records\<close>

text \<open>
  Claim C1, as the code has it. Take a configuration with positive duration and sample rate,
  a path type among circle, straight, triangle and hover, a reference latitude that is not
  polar and, for the triangle, at least three samples. Then \<open>generate_entries\<close> returns
  exactly \<open>duration * hz\<close> records when no division of a profile evaluator is by zero
  (the speed and roll periods; the yaw, pitch and zoom periods in oscillating mode; the
  altitude ripple period when the ripple amplitude is not zero and there are at least two
  samples), and raises \<open>ZeroDivisionError\<close> otherwise. The triangle generator computes
  \<open>3 * (total_pts div 3)\<close> waypoints and fills the remaining \<open>total_pts mod 3\<close> by
  repeating the last computed waypoint.
\<close>

theorem generate_entries_length:
  assumes "0 < duration cfg" and "0 < hz cfg"
    and "path_type cfg \<in> {''circle'', ''straight'', ''triangle'', ''hover''}"
    and "path_type cfg \<in> {''circle'', ''triangle''} \<longrightarrow> cos (radians (center_lat cfg)) \<noteq> 0"
    and "path_type cfg = ''straight'' \<longrightarrow> cos (radians (start_lat cfg)) \<noteq> 0"
    and "path_type cfg = ''triangle'' \<longrightarrow> 3 \<le> duration cfg * hz cfg"
  shows "(no_zero_divisor cfg \<longrightarrow>
            (\<exists>es. generate_entries st cfg = Inr es \<and> int (length es) = duration cfg * hz cfg)) \<and>
         (\<not> no_zero_divisor cfg \<longrightarrow> generate_entries st cfg = Inl ZeroDivisionError) \<and>
         (path_type cfg = ''triangle'' \<longrightarrow>
            (\<exists>out. out \<noteq> [] \<and> int (length out) = 3 * (total_pts cfg div 3) \<and>
               gen_triangle cfg = Inr (out @ replicate (nat (total_pts cfg mod 3)) (last out))))"
proof -
  have pos: "0 < total_pts cfg"
    using assms(1,2) by (simp add: total_pts_def)
  have tri: "path_type cfg = ''triangle'' \<longrightarrow> 3 \<le> total_pts cfg"
    using assms(6) by (simp add: total_pts_def)
  from path_points_length [OF pos assms(3,4,5) tri] obtain gen pts where
    g: "PATHS (path_type cfg) = Some gen" "gen cfg = Inr pts" "length pts = nat (total_pts cfg)"
    by blast
  have ne: "pts \<noteq> []" using g(3) pos by auto
  have small: "length pts \<le> 1 \<longleftrightarrow> total_pts cfg \<le> 1"
    using g(3) pos by auto
  let ?loop = "for_loop (enumerate 0 pts) (entry_body st cfg) ([], 0)"
  have ge: "generate_entries st cfg = and_then ?loop (\<lambda>(entries, flight_dist). Inr entries)"
    using g(1,2) by (simp add: generate_entries_def)
  have first: "no_zero_divisor cfg \<longrightarrow>
            (\<exists>es. generate_entries st cfg = Inr es \<and> int (length es) = duration cfg * hz cfg)"
  proof
    assume s: "no_zero_divisor cfg"
    then have alt: "alt_sine_amp (altitude cfg) = 0 \<or> alt_sine_period (altitude cfg) \<noteq> 0 \<or>
         0 + length pts \<le> 1"
      using small by (auto simp add: no_zero_divisor_def)
    from s have c: "speed_sine_period (speed cfg) \<noteq> 0" "roll_period (gimbal cfg) \<noteq> 0"
      "yaw_mode (gimbal cfg) \<noteq> ''oscillating'' \<or> yaw_period (gimbal cfg) \<noteq> 0"
      "pitch_mode (gimbal cfg) \<noteq> ''oscillating'' \<or> pitch_period (gimbal cfg) \<noteq> 0"
      "zoom_mode (zoom cfg) \<noteq> ''oscillating'' \<or> zoom_period (zoom cfg) \<noteq> 0"
      by (simp_all add: no_zero_divisor_def)
    from entries_loop_Inr_from [OF assms(2) c alt, of st "[]" 0] obtain es fd where
      r: "?loop = Inr (es, fd)" "length es = length ([] :: Entry list) + length pts"
      by blast
    have "generate_entries st cfg = Inr es" using ge r(1) by simp
    moreover have "int (length es) = duration cfg * hz cfg"
      using r(2) g(3) pos by (simp add: total_pts_def)
    ultimately show "\<exists>es. generate_entries st cfg = Inr es \<and>
                        int (length es) = duration cfg * hz cfg"
      by blast
  qed
  have second: "\<not> no_zero_divisor cfg \<longrightarrow> generate_entries st cfg = Inl ZeroDivisionError"
  proof
    assume u: "\<not> no_zero_divisor cfg"
    have "(\<exists>r. ?loop = Inr r) \<or> ?loop = Inl ZeroDivisionError"
      by (rule for_loop_raises) (rule entry_body_raises)
    then show "generate_entries st cfg = Inl ZeroDivisionError"
    proof
      assume "\<exists>r. ?loop = Inr r"
      then obtain r where "?loop = Inr r" by blast
      from entries_loop_safe [OF assms(2) ne this] have "no_zero_divisor cfg"
        using small by (simp add: no_zero_divisor_def)
      with u show ?thesis by simp
    next
      assume "?loop = Inl ZeroDivisionError"
      then show ?thesis using ge by simp
    qed
  qed
  have third: "path_type cfg = ''triangle'' \<longrightarrow>
            (\<exists>out. out \<noteq> [] \<and> int (length out) = 3 * (total_pts cfg div 3) \<and>
               gen_triangle cfg = Inr (out @ replicate (nat (total_pts cfg mod 3)) (last out)))"
  proof
    assume t: "path_type cfg = ''triangle''"
    then have "cos (radians (center_lat cfg)) \<noteq> 0" "3 \<le> total_pts cfg"
      using assms(4) tri by simp_all
    then show "\<exists>out. out \<noteq> [] \<and> int (length out) = 3 * (total_pts cfg div 3) \<and>
               gen_triangle cfg = Inr (out @ replicate (nat (total_pts cfg mod 3)) (last out))"
      by (rule gen_triangle_padding)
  qed
  from first second third show ?thesis by blast
qed

text \<open>
  A triangle of four samples has three computed waypoints and one copy of the last. A
  hover with a ripple of amplitude 5 and period 0 returns its record when it has one sample,
  at \<open>t = 0\<close>, and raises when it has two.
\<close>

theorem generate_entries_length_witness:
  "no_zero_divisor (FlightConfig_default\<lparr>path_type := ''triangle'', duration := 4\<rparr>) \<and>
   (\<exists>es. generate_entries 0 (FlightConfig_default\<lparr>path_type := ''triangle'', duration := 4\<rparr>) = Inr es \<and>
      length es = 4) \<and>
   (\<exists>out. length out = 3 \<and>
      gen_triangle (FlightConfig_default\<lparr>path_type := ''triangle'', duration := 4\<rparr>)
        = Inr (out @ [last out])) \<and>
   no_zero_divisor (FlightConfig_default\<lparr>path_type := ''hover'', duration := 1,
      altitude := AltitudeProfile_default\<lparr>alt_sine_amp := 5, alt_sine_period := 0\<rparr>\<rparr>) \<and>
   (\<exists>e. generate_entries 0 (FlightConfig_default\<lparr>path_type := ''hover'', duration := 1,
      altitude := AltitudeProfile_default\<lparr>alt_sine_amp := 5, alt_sine_period := 0\<rparr>\<rparr>) = Inr [e]) \<and>
   \<not> no_zero_divisor (FlightConfig_default\<lparr>path_type := ''hover'', duration := 2,
      altitude := AltitudeProfile_default\<lparr>alt_sine_amp := 5, alt_sine_period := 0\<rparr>\<rparr>) \<and>
   generate_entries 0 (FlightConfig_default\<lparr>path_type := ''hover'', duration := 2,
      altitude := AltitudeProfile_default\<lparr>alt_sine_amp := 5, alt_sine_period := 0\<rparr>\<rparr>)
     = Inl ZeroDivisionError"
proof -
  define c1 where "c1 = FlightConfig_default\<lparr>path_type := ''triangle'', duration := 4\<rparr>"
  define c2 where "c2 = FlightConfig_default\<lparr>path_type := ''hover'', duration := 1,
      altitude := AltitudeProfile_default\<lparr>alt_sine_amp := 5, alt_sine_period := 0\<rparr>\<rparr>"
  define c3 where "c3 = FlightConfig_default\<lparr>path_type := ''hover'', duration := 2,
      altitude := AltitudeProfile_default\<lparr>alt_sine_amp := 5, alt_sine_period := 0\<rparr>\<rparr>"
  have a1: "0 < duration c1" "0 < hz c1"
    "path_type c1 \<in> {''circle'', ''straight'', ''triangle'', ''hover''}"
    "path_type c1 \<in> {''circle'', ''triangle''} \<longrightarrow> cos (radians (center_lat c1)) \<noteq> 0"
    "path_type c1 = ''straight'' \<longrightarrow> cos (radians (start_lat c1)) \<noteq> 0"
    "path_type c1 = ''triangle'' \<longrightarrow> 3 \<le> duration c1 * hz c1"
    using cos_default_lat by (simp_all add: c1_def FlightConfig_default_def)
  have p1: "path_type c1 = ''triangle''" "duration c1 * hz c1 = 4"
    "nat (total_pts c1 mod 3) = Suc 0" "total_pts c1 div 3 = 1"
    by (simp_all add: c1_def FlightConfig_default_def total_pts_def)
  have n1: "no_zero_divisor c1"
    by (simp add: c1_def no_zero_divisor_def FlightConfig_default_def SpeedProfile_default_def
        AltitudeProfile_default_def GimbalProfile_default_def ZoomProfile_default_def)
  note T1 = generate_entries_length [OF a1, of 0]
  from T1 n1 p1(2) have r1: "\<exists>es. generate_entries 0 c1 = Inr es \<and> length es = 4"
    by auto
  from T1 p1(1) obtain out where
    o: "int (length out) = 3 * (total_pts c1 div 3)"
       "gen_triangle c1 = Inr (out @ replicate (nat (total_pts c1 mod 3)) (last out))"
    by blast
  from o have r1': "\<exists>out. length out = 3 \<and> gen_triangle c1 = Inr (out @ [last out])"
    unfolding p1(3,4) by auto
  have a2: "0 < duration c2" "0 < hz c2"
    "path_type c2 \<in> {''circle'', ''straight'', ''triangle'', ''hover''}"
    "path_type c2 \<in> {''circle'', ''triangle''} \<longrightarrow> cos (radians (center_lat c2)) \<noteq> 0"
    "path_type c2 = ''straight'' \<longrightarrow> cos (radians (start_lat c2)) \<noteq> 0"
    "path_type c2 = ''triangle'' \<longrightarrow> 3 \<le> duration c2 * hz c2"
    by (simp_all add: c2_def FlightConfig_default_def)
  have n2: "no_zero_divisor c2"
    by (simp add: c2_def no_zero_divisor_def FlightConfig_default_def SpeedProfile_default_def
        AltitudeProfile_default_def GimbalProfile_default_def ZoomProfile_default_def
        total_pts_def)
  have d2: "duration c2 * hz c2 = 1"
    by (simp add: c2_def FlightConfig_default_def)
  from generate_entries_length [OF a2, of 0] n2 d2 obtain es where
    es: "generate_entries 0 c2 = Inr es" "length es = Suc 0"
    by auto
  from es(2) obtain e where "es = [e]" by (auto simp add: length_Suc_conv)
  with es(1) have r2: "\<exists>e. generate_entries 0 c2 = Inr [e]" by blast
  have a3: "0 < duration c3" "0 < hz c3"
    "path_type c3 \<in> {''circle'', ''straight'', ''triangle'', ''hover''}"
    "path_type c3 \<in> {''circle'', ''triangle''} \<longrightarrow> cos (radians (center_lat c3)) \<noteq> 0"
    "path_type c3 = ''straight'' \<longrightarrow> cos (radians (start_lat c3)) \<noteq> 0"
    "path_type c3 = ''triangle'' \<longrightarrow> 3 \<le> duration c3 * hz c3"
    by (simp_all add: c3_def FlightConfig_default_def)
  have n3: "\<not> no_zero_divisor c3"
    by (simp add: c3_def no_zero_divisor_def FlightConfig_default_def SpeedProfile_default_def
        AltitudeProfile_default_def GimbalProfile_default_def ZoomProfile_default_def
        total_pts_def)
  from generate_entries_length [OF a3, of 0] n3
  have r3: "generate_entries 0 c3 = Inl ZeroDivisionError" by blast
  from n1 r1 r1' n2 r2 n3 r3 have
    "no_zero_divisor c1 \<and> (\<exists>es. generate_entries 0 c1 = Inr es \<and> length es = 4) \<and>
     (\<exists>out. length out = 3 \<and> gen_triangle c1 = Inr (out @ [last out])) \<and>
     no_zero_divisor c2 \<and> (\<exists>e. generate_entries 0 c2 = Inr [e]) \<and>
     \<not> no_zero_divisor c3 \<and> generate_entries 0 c3 = Inl ZeroDivisionError"
    by blast
  then show ?thesis unfolding c1_def c2_def c3_def .
qed

text \<open>
  C1 fails as stated at two inputs. A triangle with one sample (\<open>duration = 1\<close>,
  \<open>hz = 1\<close>) gives three records: \<open>pts_per_edge\<close> is raised from 0 to 1, the three
  edges give three waypoints, and the padding loop only ever lengthens. And a hover whose
  speed period is \<open>0\<close> gives no record at all: the speed evaluator divides by the period.
\<close>

theorem generate_entries_length_counterexample:
  "map_sum id length
     (generate_entries 0 (FlightConfig_default\<lparr>path_type := ''triangle'', duration := 1\<rparr>)) = Inr 3 \<and>
   duration (FlightConfig_default\<lparr>path_type := ''triangle'', duration := 1\<rparr>)
     * hz (FlightConfig_default\<lparr>path_type := ''triangle'', duration := 1\<rparr>) = 1 \<and>
   generate_entries 0
     (FlightConfig_default\<lparr>path_type := ''hover'', duration := 1,
        speed := SpeedProfile_default\<lparr>speed_sine_period := 0\<rparr>\<rparr>) = Inl ZeroDivisionError"
proof -
  let ?c = "FlightConfig_default\<lparr>path_type := ''triangle'', duration := 1\<rparr>"
  have c: "cos (radians (center_lat ?c)) \<noteq> 0"
    using cos_default_lat by (simp add: FlightConfig_default_def)
  have t: "total_pts ?c = 1"
    by (simp add: FlightConfig_default_def total_pts_def)
  from gen_triangle_length [OF c] obtain pts where
    p: "gen_triangle ?c = Inr pts" "length pts = 3"
    unfolding t by auto
  have g: "PATHS (path_type ?c) = Some gen_triangle"
    by (simp add: PATHS_triangle)
  have h: "hz ?c \<noteq> 0" by (simp add: FlightConfig_default_def)
  have n: "periods_nonzero ?c" by (rule periods_nonzero_default)
  obtain es where "generate_entries 0 ?c = Inr es" "length es = length pts"
    using generate_entries_Inr [OF n h g p(1), of 0] by blast
  then have one: "map_sum id length (generate_entries 0 ?c) = Inr 3"
    using p(2) by simp
  have two: "duration ?c * hz ?c = 1"
    by (simp add: FlightConfig_default_def)
  have three: "generate_entries 0
     (FlightConfig_default\<lparr>path_type := ''hover'', duration := 1,
        speed := SpeedProfile_default\<lparr>speed_sine_period := 0\<rparr>\<rparr>) = Inl ZeroDivisionError"
    by (simp add: generate_entries_def PATHS_def gen_hover_def total_pts_def
          FlightConfig_default_def entry_body_def py_div_nonzero SpeedProfile_speed_def
          SpeedProfile_default_def enumerate_eq_zip)
  from one two three show ?thesis by blast
qed

subsection \<open>Flight distance\<close>

text \<open>
  Claim C5, as the code has it. When the sample rate is positive and the speed is
  non-negative at every sample time, the \<open>flight_distance\<close> field of the records returned
  by \<open>generate_entries\<close> is non-decreasing in the sample index. The field of record
  \<open>i\<close> is the rounding, to one decimal, of the sum over \<open>k \<le> i\<close> of the unrounded
  speed at sample \<open>k\<close> divided by the sample rate; the \<open>speed\<close> field of the record
  holds that speed rounded to two decimals, which does not enter the sum.
\<close>

theorem flight_distance_monotone:
  assumes "0 < hz cfg"
    and "generate_entries st cfg = Inr es"
    and "\<forall>i<length es. 0 \<le> sample_speed cfg i"
  shows "(\<forall>i j. i \<le> j \<and> j < length es \<longrightarrow>
            flight_distance (data (es ! i)) \<le> flight_distance (data (es ! j))) \<and>
         (\<forall>i<length es.
            SpeedProfile_speed (speed cfg) (real i / of_int (hz cfg)) = Inr (sample_speed cfg i) \<and>
            flight_distance (data (es ! i))
              = py_round (\<Sum>k\<le>i. sample_speed cfg k / of_int (hz cfg)) 1 \<and>
            speed_field (data (es ! i)) = py_round (sample_speed cfg i) 2)"
proof -
  from generate_entries_eq_Inr [OF assms(2)] obtain gen pts fd where
    loop: "for_loop (enumerate 0 pts) (entry_body st cfg) ([], 0) = Inr (es, fd)"
    by blast
  note v = entries_loop_values [OF loop]
  have acc: "\<forall>i<length es.
            SpeedProfile_speed (speed cfg) (real i / of_int (hz cfg)) = Inr (sample_speed cfg i) \<and>
            flight_distance (data (es ! i))
              = py_round (\<Sum>k\<le>i. sample_speed cfg k / of_int (hz cfg)) 1 \<and>
            speed_field (data (es ! i)) = py_round (sample_speed cfg i) 2"
    using v by simp
  have mono: "\<forall>i j. i \<le> j \<and> j < length es \<longrightarrow>
            flight_distance (data (es ! i)) \<le> flight_distance (data (es ! j))"
  proof (intro allI impI)
    fix i j assume ij: "i \<le> j \<and> j < length es"
    have "(\<Sum>k\<le>i. sample_speed cfg k / of_int (hz cfg))
            \<le> (\<Sum>k\<le>j. sample_speed cfg k / of_int (hz cfg))"
    proof (rule sum_mono2)
      show "finite {..j}" by simp
      show "{..i} \<subseteq> {..j}" using ij by simp
      fix b assume "b \<in> {..j} - {..i}"
      then have "b < length es" using ij by simp
      then have "0 \<le> sample_speed cfg b" using assms(3) by simp
      then show "0 \<le> sample_speed cfg b / of_int (hz cfg)"
        using assms(1) by simp
    qed
    then have "py_round (\<Sum>k\<le>i. sample_speed cfg k / of_int (hz cfg)) 1
                 \<le> py_round (\<Sum>k\<le>j. sample_speed cfg k / of_int (hz cfg)) 1"
      by (rule py_round_mono)
    then show "flight_distance (data (es ! i)) \<le> flight_distance (data (es ! j))"
      using acc ij by simp
  qed
  from mono acc show ?thesis by blast
qed

text \<open>
  Four samples of a hover at the constant speed \<open>0.014\<close>: the distances are
  \<open>0, 0, 0, 0.1\<close>, the last one from the sum \<open>0.056\<close>. The \<open>speed\<close> field holds
  \<open>0.01\<close>; summing that instead would give \<open>0.04\<close> and the distance \<open>0\<close>.
\<close>

theorem flight_distance_monotone_witness:
  "0 < hz (FlightConfig_default\<lparr>path_type := ''hover'', duration := 4,
             speed := SpeedProfile_default\<lparr>base := 0.014\<rparr>\<rparr>) \<and>
   sample_speed (FlightConfig_default\<lparr>path_type := ''hover'', duration := 4,
             speed := SpeedProfile_default\<lparr>base := 0.014\<rparr>\<rparr>) 3 = 0.014 \<and>
   map_sum id flight_distances
     (generate_entries 0 (FlightConfig_default\<lparr>path_type := ''hover'', duration := 4,
             speed := SpeedProfile_default\<lparr>base := 0.014\<rparr>\<rparr>)) = Inr [0, 0, 0, 1 / 10] \<and>
   py_round (4 * py_round (sample_speed (FlightConfig_default\<lparr>path_type := ''hover'', duration := 4,
             speed := SpeedProfile_default\<lparr>base := 0.014\<rparr>\<rparr>) 3) 2) 1 = 0"
proof -
  define c where "c = FlightConfig_default\<lparr>path_type := ''hover'', duration := 4,
             speed := SpeedProfile_default\<lparr>base := 0.014\<rparr>\<rparr>"
  have hz: "0 < hz c" "hz c \<noteq> 0" "real_of_int (hz c) = 1"
    by (simp_all add: c_def FlightConfig_default_def)
  have pt: "path_type c = ''hover''" and tp: "nat (total_pts c) = Suc (Suc (Suc (Suc 0)))"
    by (simp_all add: c_def FlightConfig_default_def total_pts_def)
  have n: "periods_nonzero c"
    by (simp add: c_def periods_nonzero_def FlightConfig_default_def SpeedProfile_default_def
        AltitudeProfile_default_def GimbalProfile_default_def ZoomProfile_default_def)
  have "speed_sine_amp (speed c) = 0" "speed_sine_period (speed c) \<noteq> 0" "base (speed c) = 7 / 500"
    by (simp_all add: c_def FlightConfig_default_def SpeedProfile_default_def)
  then have sp: "\<And>i. sample_speed c i = 7 / 500"
    by (simp add: sample_speed_constant)
  obtain es where es: "generate_entries 0 c = Inr es" "length es = nat (total_pts c)"
    using hover_entries_length [OF n hz(2) pt] by blast
  from es(2) tp obtain e0 e1 e2 e3 where l: "es = [e0, e1, e2, e3]"
    by (auto simp add: length_Suc_conv)
  have nonneg: "\<forall>i<length es. 0 \<le> sample_speed c i"
    by (simp add: sp)
  note T = flight_distance_monotone [OF hz(1) es(1) nonneg]
  have f: "\<And>i. i < length es \<Longrightarrow>
             flight_distance (data (es ! i)) = py_round (\<Sum>k\<le>i. sample_speed c k / of_int (hz c)) 1"
    using T by blast
  have v0: "flight_distance (data e0) = 0"
    using f [of 0] by (simp add: l sp hz(3) py_round_def round_half_even_def Let_def)
  have v1: "flight_distance (data e1) = 0"
    using f [of "Suc 0"] by (simp add: l sp hz(3) py_round_def round_half_even_def Let_def)
  have v2: "flight_distance (data e2) = 0"
    using f [of "Suc (Suc 0)"] by (simp add: l sp hz(3) py_round_def round_half_even_def Let_def)
  have v3: "flight_distance (data e3) = 1 / 10"
    using f [of "Suc (Suc (Suc 0))"]
    by (simp add: l sp hz(3) py_round_def round_half_even_def Let_def)
  have r1: "map_sum id flight_distances (generate_entries 0 c) = Inr [0, 0, 0, 1 / 10]"
    by (simp add: es(1) l flight_distances_def v0 v1 v2 v3)
  have r2: "py_round (4 * py_round (sample_speed c 3) 2) 1 = 0"
    by (simp add: sp py_round_def round_half_even_def Let_def)
  have r3: "sample_speed c 3 = 0.014"
    by (simp add: sp)
  from hz(1) r3 r1 r2 have "0 < hz c \<and> sample_speed c 3 = 0.014 \<and>
      map_sum id flight_distances (generate_entries 0 c) = Inr [0, 0, 0, 1 / 10] \<and>
      py_round (4 * py_round (sample_speed c 3) 2) 1 = 0"
    by blast
  then show ?thesis unfolding c_def .
qed

text \<open>
  C5 does not ask for a positive sample rate. With \<open>duration = -2\<close> and \<open>hz = -1\<close>
  there are two samples, the speed is 5 at both, and the flight distance goes from
  \<open>-5\<close> to \<open>-10\<close>.
\<close>

theorem flight_distance_negative_rate_counterexample:
  "map_sum id flight_distances
     (generate_entries 0 (FlightConfig_default\<lparr>path_type := ''hover'', duration := - 2, hz := - 1\<rparr>))
     = Inr [- 5, - 10] \<and>
   sample_speed (FlightConfig_default\<lparr>path_type := ''hover'', duration := - 2, hz := - 1\<rparr>) 0 = 5 \<and>
   sample_speed (FlightConfig_default\<lparr>path_type := ''hover'', duration := - 2, hz := - 1\<rparr>) 1 = 5"
proof -
  define c where "c = FlightConfig_default\<lparr>path_type := ''hover'', duration := - 2, hz := - 1\<rparr>"
  have hz: "hz c \<noteq> 0" "real_of_int (hz c) = - 1"
    by (simp_all add: c_def FlightConfig_default_def)
  have pt: "path_type c = ''hover''" "total_pts c = 2"
    by (simp_all add: c_def FlightConfig_default_def total_pts_def)
  have n: "periods_nonzero c"
    by (simp add: c_def periods_nonzero_def FlightConfig_default_def SpeedProfile_default_def
        AltitudeProfile_default_def GimbalProfile_default_def ZoomProfile_default_def)
  have "speed_sine_amp (speed c) = 0" "speed_sine_period (speed c) \<noteq> 0" "base (speed c) = 5"
    by (simp_all add: c_def FlightConfig_default_def SpeedProfile_default_def)
  then have sp: "\<And>i. sample_speed c i = 5"
    by (simp add: sample_speed_constant)
  obtain a b where es: "generate_entries 0 c = Inr [a, b]"
    using hover_two_entries [OF n hz(1) pt] by blast
  from generate_entries_eq_Inr [OF es] obtain gen pts fd where
    loop: "for_loop (enumerate 0 pts) (entry_body 0 c) ([], 0) = Inr ([a, b], fd)"
    by blast
  note V = entries_loop_values [OF loop]
  from V have len: "length pts = Suc (Suc 0)" by simp
  from V len have "flight_distance (data ([a, b] ! 0))
                    = py_round (\<Sum>k\<le>0. sample_speed c k / of_int (hz c)) 1"
    by (metis zero_less_Suc)
  then have va: "flight_distance (data a) = - 5"
    by (simp add: sp hz(2) py_round_def round_half_even_def Let_def)
  have "Suc 0 < length pts" using len by simp
  with V have "flight_distance (data ([a, b] ! Suc 0))
                    = py_round (\<Sum>k\<le>Suc 0. sample_speed c k / of_int (hz c)) 1"
    by blast
  then have vb: "flight_distance (data b) = - 10"
    by (simp add: sp hz(2) py_round_def round_half_even_def Let_def)
  have r1: "map_sum id flight_distances (generate_entries 0 c) = Inr [- 5, - 10]"
    by (simp add: es flight_distances_def va vb)
  from r1 sp have "map_sum id flight_distances (generate_entries 0 c) = Inr [- 5, - 10] \<and>
      sample_speed c 0 = 5 \<and> sample_speed c 1 = 5"
    by blast
  then show ?thesis unfolding c_def .
qed

subsection \<open>The start time\<close>

lemma entry_body_start_time:
  assumes "map without_datetime es1 = map without_datetime es2"
  shows "rel_sum (=) (\<lambda>s t. map without_datetime (fst s) = map without_datetime (fst t) \<and> snd s = snd t)
           (entry_body s1 cfg iw (es1, fd)) (entry_body s2 cfg iw (es2, fd))"
proof -
  obtain i lat lon heading where iw: "iw = (i, lat, lon, heading)"
    by (cases iw) auto
  show ?thesis
    using assms unfolding iw entry_body_def
    by (auto simp add: and_then_def without_datetime_def Let_def split: sum.splits)
qed

lemma without_datetime_generate_entries:
  "map_sum id (map without_datetime) (generate_entries s1 cfg) =
   map_sum id (map without_datetime) (generate_entries s2 cfg)"
proof (cases "PATHS (path_type cfg)")
  case None
  then show ?thesis by (simp add: generate_entries_def)
next
  case (Some gen)
  show ?thesis
  proof (cases "gen cfg")
    case (Inl e)
    then show ?thesis using Some by (simp add: generate_entries_def)
  next
    case (Inr pts)
    let ?R = "\<lambda>s t :: Entry list \<times> real.
                map without_datetime (fst s) = map without_datetime (fst t) \<and> snd s = snd t"
    have "rel_sum (=) ?R
            (for_loop (enumerate 0 pts) (entry_body s1 cfg) ([], 0))
            (for_loop (enumerate 0 pts) (entry_body s2 cfg) ([], 0))"
    proof (rule for_loop_rel)
      show "?R ([], 0) ([], 0)" by simp
    next
      fix x and s t :: "Entry list \<times> real"
      assume "?R s t"
      then show "rel_sum (=) ?R (entry_body s1 cfg x s) (entry_body s2 cfg x t)"
        using entry_body_start_time [of "fst s" "fst t" s1 cfg x "snd s" s2]
        by (cases s; cases t) simp
    qed
    then show ?thesis
      using Some Inr
      by (cases rule: rel_sum.cases) (auto simp add: generate_entries_def)
  qed
qed

text \<open>
  Claim C9. The clock is read once and its value is the parameter \<open>start_time\<close>; the
  configuration and that value determine the result. Two runs on the same configuration
  agree on everything but the timestamp field, also when their start times differ, raised
  exceptions included; and the timestamp of record \<open>i\<close> is the start time of the run plus
  \<open>i / hz\<close> seconds, kept to the microsecond.
\<close>

theorem start_time_only_in_datetime:
  "map_sum id (map without_datetime) (generate_entries s1 cfg) =
     map_sum id (map without_datetime) (generate_entries s2 cfg) \<and>
   (\<forall>es i. generate_entries s1 cfg = Inr es \<and> i < length es \<longrightarrow>
      current_datetime (data (es ! i)) = s1 + py_round (real i / of_int (hz cfg)) 6)"
proof -
  have "\<forall>es i. generate_entries s1 cfg = Inr es \<and> i < length es \<longrightarrow>
      current_datetime (data (es ! i)) = s1 + py_round (real i / of_int (hz cfg)) 6"
  proof (intro allI impI)
    fix es i
    assume a: "generate_entries s1 cfg = Inr es \<and> i < length es"
    then obtain gen pts fd where
      "for_loop (enumerate 0 pts) (entry_body s1 cfg) ([], 0) = Inr (es, fd)"
      using generate_entries_eq_Inr by blast
    from entries_loop_values [OF this] a
    show "current_datetime (data (es ! i)) = s1 + py_round (real i / of_int (hz cfg)) 6"
      by simp
  qed
  with without_datetime_generate_entries [of s1 cfg s2] show ?thesis by blast
qed

theorem start_time_only_in_datetime_witness:
  "\<exists>e1 e2.
     generate_entries 0 (FlightConfig_default\<lparr>path_type := ''hover'', duration := 1\<rparr>) = Inr [e1] \<and>
     generate_entries 1000 (FlightConfig_default\<lparr>path_type := ''hover'', duration := 1\<rparr>) = Inr [e2] \<and>
     without_datetime e1 = without_datetime e2 \<and>
     current_datetime (data e1) = 0 \<and> current_datetime (data e2) = 1000"
proof -
  define c where "c = FlightConfig_default\<lparr>path_type := ''hover'', duration := 1\<rparr>"
  have hz: "hz c \<noteq> 0"
    by (simp add: c_def FlightConfig_default_def)
  have pt: "path_type c = ''hover''" "total_pts c = 1"
    by (simp_all add: c_def FlightConfig_default_def total_pts_def)
  have n: "periods_nonzero c"
    unfolding c_def by (rule periods_nonzero_default)
  obtain e1 where e1: "generate_entries 0 c = Inr [e1]"
    using hover_one_entry [OF n hz pt] by blast
  obtain e2 where e2: "generate_entries 1000 c = Inr [e2]"
    using hover_one_entry [OF n hz pt] by blast
  note T1 = start_time_only_in_datetime [of 0 c 1000]
  note T2 = start_time_only_in_datetime [of 1000 c 0]
  from T1 have "map_sum id (map without_datetime) (generate_entries 0 c) =
     map_sum id (map without_datetime) (generate_entries 1000 c)"
    by (rule conjunct1)
  then have same: "without_datetime e1 = without_datetime e2"
    by (simp add: e1 e2)
  have "generate_entries 0 c = Inr [e1] \<and> 0 < length [e1]"
    using e1 by simp
  with T1 have "current_datetime (data ([e1] ! 0)) = 0 + py_round (real 0 / of_int (hz c)) 6"
    by blast
  then have d1: "current_datetime (data e1) = 0"
    by (simp add: py_round_zero)
  have "generate_entries 1000 c = Inr [e2] \<and> 0 < length [e2]"
    using e2 by simp
  with T2 have "current_datetime (data ([e2] ! 0)) = 1000 + py_round (real 0 / of_int (hz c)) 6"
    by blast
  then have d2: "current_datetime (data e2) = 1000"
    by (simp add: py_round_zero)
  from e1 e2 same d1 d2 have "\<exists>e1 e2.
     generate_entries 0 c = Inr [e1] \<and> generate_entries 1000 c = Inr [e2] \<and>
     without_datetime e1 = without_datetime e2 \<and>
     current_datetime (data e1) = 0 \<and> current_datetime (data e2) = 1000"
    by blast
  then show ?thesis unfolding c_def .
qed

end
